theory Spec2Isabelle
  imports Main
begin

section \<open>Conventions of the embedding\<close>

text \<open>
  The service is asynchronous TypeScript over a PostgreSQL store, with two library
  collaborators (bcrypt and jsonwebtoken). The embedding is sequential and makes every
  input of the outside world an explicit argument:
  \<^item> the store is a record of four tables, each a list of rows in insertion order; a
    repository function takes the store and returns the new one;
  \<^item> a thrown \<open>ServiceError\<close> is the \<open>Inl\<close> of a sum. A repository function is one SQL
    statement, so it returns \<open>ServiceError + result \<times> store\<close>; a service function may fail
    after earlier statements have been committed, so it returns
    \<open>(ServiceError + result) \<times> store\<close>;
  \<^item> every value drawn from outside (a bcrypt salt, a \<open>uuidv4()\<close>, a key generated by
    \<open>gen_random_uuid()\<close>, a reading of \<open>CURRENT_TIMESTAMP\<close>, of \<open>Date.now()\<close> or of the
    token library's clock) is an argument, one for each place where the code draws it;
  \<^item> the two library primitives that are not code of the service, the bcrypt key
    derivation and the signature of jsonwebtoken, are arguments as well (record \<open>lib\<close>):
    nothing is assumed about them;
  \<^item> strings are lists of code units, numbers of the profile are integers, identifiers
    are UUIDs (never the empty string), instants are integers (milliseconds for \<open>Date\<close>,
    whole seconds for the clock of the token library, as in the \<open>iat\<close> and \<open>exp\<close> claims).
  A statement that the store rejects fails as \<open>query\<close> makes every driver error fail,
  with \<open>DATABASE_ERROR\<close>. The store rejects an INSERT that violates a PRIMARY KEY, UNIQUE
  or REFERENCES constraint of the schema, a text parameter that holds the code unit 0, a
  value too long for its VARCHAR column and a number outside its INTEGER column; it is
  otherwise available.
\<close>

section \<open>types/errors.ts\<close>

datatype ErrorCode =
    INVALID_EMAIL
  | WEAK_PASSWORD
  | USER_EXISTS
  | EMAIL_TAKEN
  | USERNAME_TAKEN
  | INVALID_CREDENTIALS
  | USER_NOT_FOUND
  | EXPIRED_TOKEN
  | INVALID_TOKEN
  | UNAUTHORIZED
  | DATABASE_ERROR
  | INTERNAL_ERROR
  | INVALID_RESET_TOKEN
  | RESET_TOKEN_EXPIRED

record ServiceError =
  code :: ErrorCode
  message :: string
  statusCode :: nat

definition ServiceError :: "ErrorCode \<Rightarrow> string \<Rightarrow> nat \<Rightarrow> ServiceError" where
  "ServiceError c m s = \<lparr>code = c, message = m, statusCode = s\<rparr>"

section \<open>types/user-types.ts\<close>

datatype uuid = Uuid nat

type_synonym instant = int

text \<open>The digest string of bcrypt carries the salt and the cost beside the hash proper.\<close>

record digest =
  d_salt :: string
  d_rounds :: nat
  d_hash :: string

record User =
  u_id :: uuid
  u_email :: string
  u_username :: string
  u_created_at :: instant
  u_updated_at :: instant
  u_is_active :: bool

record UserProfile =
  up_id :: uuid
  up_user_id :: uuid
  up_avatar_url :: "string option"
  up_level :: int
  up_experience :: int
  up_stats_wins :: int
  up_stats_losses :: int
  up_created_at :: instant
  up_updated_at :: instant

record UserPreferences =
  pr_id :: uuid
  pr_user_id :: uuid
  pr_notifications_enabled :: bool
  pr_language :: string
  pr_theme :: string
  pr_created_at :: instant
  pr_updated_at :: instant

record UserWithProfile =
  uwp_user :: User
  uwp_profile :: UserProfile
  uwp_preferences :: UserPreferences

record RegisterRequest =
  rr_email :: string
  rr_password :: string
  rr_username :: string

record LoginRequest =
  lr_email :: string
  lr_password :: string

datatype token_type = access | refresh

record TokenPayload =
  tp_userId :: uuid
  tp_email :: string
  tp_username :: string
  tp_type :: token_type

text \<open>
  What \<open>jwt.sign\<close> signs: the payload with the \<open>iat\<close> and \<open>exp\<close> claims it adds. A token
  string is either the compact form of such claims with a signature, or malformed.
\<close>

record jwt_claims = TokenPayload +
  jwt_iat :: instant
  jwt_exp :: instant

datatype token = Malformed string | Jws jwt_claims string

record AuthResponse =
  ar_user :: User
  ar_token :: token
  ar_refreshToken :: token

record ValidationResponse =
  vr_valid :: bool
  vr_userId :: "uuid option"
  vr_email :: "string option"
  vr_username :: "string option"

record UpdateProfileRequest =
  upq_avatar_url :: "string option"
  upq_level :: "int option"
  upq_experience :: "int option"
  upq_stats_wins :: "int option"
  upq_stats_losses :: "int option"

record UpdatePreferencesRequest =
  ufq_notifications_enabled :: "bool option"
  ufq_language :: "string option"
  ufq_theme :: "string option"

record PasswordResetRequest =
  prq_email :: string

record PasswordResetConfirm =
  prc_token :: string
  prc_newPassword :: string

record PasswordResetToken =
  rt_id :: uuid
  rt_user_id :: uuid
  rt_token_hash :: digest
  rt_expires_at :: instant
  rt_created_at :: instant

section \<open>The libraries: bcrypt and jsonwebtoken\<close>

record lib =
  bcrypt_kdf :: "string \<Rightarrow> nat \<Rightarrow> string \<Rightarrow> string"
  jwt_signature :: "string \<Rightarrow> jwt_claims \<Rightarrow> string"

text \<open>
  \<open>bcrypt.hash(data, rounds)\<close> draws a fresh salt and returns the digest for it;
  \<open>bcrypt.compare(data, encrypted)\<close> recomputes the hash with the salt and the cost that
  \<open>encrypted\<close> carries.
\<close>

definition bcrypt_hash :: "lib \<Rightarrow> string \<Rightarrow> string \<Rightarrow> nat \<Rightarrow> digest" where
  "bcrypt_hash L salt data rounds =
     \<lparr>d_salt = salt, d_rounds = rounds, d_hash = bcrypt_kdf L salt rounds data\<rparr>"

definition bcrypt_compare :: "lib \<Rightarrow> string \<Rightarrow> digest \<Rightarrow> bool" where
  "bcrypt_compare L data encrypted =
     (bcrypt_kdf L (d_salt encrypted) (d_rounds encrypted) data = d_hash encrypted)"

datatype jwt_error = TokenExpiredError | JsonWebTokenError

text \<open>
  \<open>jwt.sign(payload, secret, {expiresIn})\<close> at the clock reading \<open>clock\<close>, and
  \<open>jwt.verify(token, secret)\<close>: the format first, then the signature, then the expiry
  (\<open>clock >= exp\<close> is expired).
\<close>

definition jwt_sign :: "lib \<Rightarrow> instant \<Rightarrow> TokenPayload \<Rightarrow> string \<Rightarrow> int \<Rightarrow> token" where
  "jwt_sign L clock payload secret expiresIn =
     (let claims = \<lparr>tp_userId = tp_userId payload, tp_email = tp_email payload,
                     tp_username = tp_username payload, tp_type = tp_type payload,
                     jwt_iat = clock, jwt_exp = clock + expiresIn\<rparr>
      in Jws claims (jwt_signature L secret claims))"

definition jwt_verify :: "lib \<Rightarrow> instant \<Rightarrow> token \<Rightarrow> string \<Rightarrow> jwt_error + jwt_claims" where
  "jwt_verify L clock t secret =
     (case t of
        Malformed s \<Rightarrow> Inl JsonWebTokenError
      | Jws claims sig \<Rightarrow>
          if sig \<noteq> jwt_signature L secret claims then Inl JsonWebTokenError
          else if jwt_exp claims \<le> clock then Inl TokenExpiredError
          else Inr claims)"

section \<open>services/jwt-service.ts\<close>

text \<open>The three constants read from the process environment, the time spans in seconds.\<close>

record config =
  JWT_SECRET :: string
  JWT_EXPIRY :: int
  JWT_REFRESH_EXPIRY :: int

definition generateAccessToken ::
    "lib \<Rightarrow> config \<Rightarrow> instant \<Rightarrow> uuid \<Rightarrow> string \<Rightarrow> string \<Rightarrow> token" where
  "generateAccessToken L cfg clock userId email username =
     (let payload = \<lparr>tp_userId = userId, tp_email = email, tp_username = username,
                      tp_type = access\<rparr>
      in jwt_sign L clock payload (JWT_SECRET cfg) (JWT_EXPIRY cfg))"

definition generateRefreshToken ::
    "lib \<Rightarrow> config \<Rightarrow> instant \<Rightarrow> uuid \<Rightarrow> string \<Rightarrow> string \<Rightarrow> token" where
  "generateRefreshToken L cfg clock userId email username =
     (let payload = \<lparr>tp_userId = userId, tp_email = email, tp_username = username,
                      tp_type = refresh\<rparr>
      in jwt_sign L clock payload (JWT_SECRET cfg) (JWT_REFRESH_EXPIRY cfg))"

definition validateToken :: "lib \<Rightarrow> config \<Rightarrow> instant \<Rightarrow> token \<Rightarrow> ServiceError + ValidationResponse" where
  "validateToken L cfg clock t =
     (case jwt_verify L clock t (JWT_SECRET cfg) of
        Inr decoded \<Rightarrow>
          Inr \<lparr>vr_valid = True, vr_userId = Some (tp_userId decoded),
               vr_email = Some (tp_email decoded), vr_username = Some (tp_username decoded)\<rparr>
      | Inl error \<Rightarrow>
          if error = TokenExpiredError
          then Inl (ServiceError EXPIRED_TOKEN ''Token has expired'' 401)
          else Inl (ServiceError INVALID_TOKEN ''Invalid token'' 401))"

section \<open>The store (db/migrations.ts, db/database.ts)\<close>

text \<open>A row of \<open>users\<close> is a \<open>User\<close> with the \<open>password_hash\<close> column.\<close>

record users_row = User +
  u_password_hash :: digest

record db =
  users :: "users_row list"
  user_profiles :: "UserProfile list"
  user_preferences :: "UserPreferences list"
  password_reset_tokens :: "PasswordResetToken list"

text \<open>What \<open>query\<close> throws when the driver rejects a statement.\<close>

definition query_error :: ServiceError where
  "query_error = ServiceError DATABASE_ERROR ''Database operation failed'' 500"

text \<open>
  The types of the columns. No text parameter may hold the code unit 0, in whatever
  statement it stands. A value stored in a column \<open>VARCHAR(n)\<close> has at most \<open>n\<close>
  characters; a longer one is rejected, unless all that exceeds \<open>n\<close> is spaces, which
  are cut off. A column \<open>INTEGER\<close> holds 32-bit integers. (The \<open>password_hash\<close> and
  \<open>token_hash\<close> columns take the 60 characters of a bcrypt digest.)
\<close>

definition storable_text :: "string \<Rightarrow> bool" where
  "storable_text s = (CHR 0x00 \<notin> set s)"

definition varchar :: "nat \<Rightarrow> string \<Rightarrow> string option" where
  "varchar n s =
     (if storable_text s \<and> length s \<le> n then Some s
      else if storable_text s \<and> list_all (\<lambda>c. c = CHR 0x20) (drop n s) then Some (take n s)
      else None)"

definition int4 :: "int \<Rightarrow> bool" where
  "int4 n = (- 2147483648 \<le> n \<and> n \<le> 2147483647)"

text \<open>\<open>result.rows.length > 0 ? result.rows[0] : null\<close>\<close>

definition first_row :: "'a list \<Rightarrow> 'a option" where
  "first_row rows = (if length rows > 0 then Some (rows ! 0) else None)"

text \<open>The column list \<open>id, email, username, created_at, updated_at, is_active\<close>.\<close>

definition select_user :: "users_row \<Rightarrow> User" where
  "select_user r =
     \<lparr>u_id = u_id r, u_email = u_email r, u_username = u_username r,
      u_created_at = u_created_at r, u_updated_at = u_updated_at r,
      u_is_active = u_is_active r\<rparr>"

subsection \<open>The dynamic UPDATE statements\<close>

text \<open>
  \<open>updateUserProfile\<close> and \<open>updateUserPreferences\<close> assemble their SET clause at run
  time: a list of assignments \<open>column = $n\<close> beside the array of parameter values, and a
  last assignment \<open>updated_at = CURRENT_TIMESTAMP\<close>. The statement is kept as that list,
  and the store interprets it: \<open>$n\<close> is the \<open>n\<close>-th value (from 1), an assignment whose
  value has not the type of its column or does not fit it (\<open>avatar_url VARCHAR(500)\<close>,
  \<open>language VARCHAR(10)\<close>, \<open>theme VARCHAR(20)\<close>, the numbers \<open>INTEGER\<close>) makes the
  statement fail, and so does a placeholder beyond the array.
\<close>

datatype sql_value =
    SqlText string
  | SqlInt int
  | SqlBool bool
  | SqlUuid uuid
  | SqlTimestamp instant

datatype sql_expr = Placeholder nat | CURRENT_TIMESTAMP

datatype column =
    avatar_url
  | level
  | experience
  | stats_wins
  | stats_losses
  | notifications_enabled
  | language
  | theme
  | updated_at

definition param :: "sql_value list \<Rightarrow> nat \<Rightarrow> sql_value option" where
  "param vals n = (if 1 \<le> n \<and> n \<le> length vals then Some (vals ! (n - 1)) else None)"

definition eval_expr :: "instant \<Rightarrow> sql_value list \<Rightarrow> sql_expr \<Rightarrow> sql_value option" where
  "eval_expr now vals e =
     (case e of Placeholder n \<Rightarrow> param vals n | CURRENT_TIMESTAMP \<Rightarrow> Some (SqlTimestamp now))"

fun profile_setter :: "column \<Rightarrow> sql_value \<Rightarrow> (UserProfile \<Rightarrow> UserProfile) option" where
  "profile_setter avatar_url (SqlText s) =
     map_option (\<lambda>v p. p\<lparr>up_avatar_url := Some v\<rparr>) (varchar 500 s)"
| "profile_setter level (SqlInt n) =
     (if int4 n then Some (\<lambda>p. p\<lparr>up_level := n\<rparr>) else None)"
| "profile_setter experience (SqlInt n) =
     (if int4 n then Some (\<lambda>p. p\<lparr>up_experience := n\<rparr>) else None)"
| "profile_setter stats_wins (SqlInt n) =
     (if int4 n then Some (\<lambda>p. p\<lparr>up_stats_wins := n\<rparr>) else None)"
| "profile_setter stats_losses (SqlInt n) =
     (if int4 n then Some (\<lambda>p. p\<lparr>up_stats_losses := n\<rparr>) else None)"
| "profile_setter updated_at (SqlTimestamp t) = Some (\<lambda>p. p\<lparr>up_updated_at := t\<rparr>)"
| "profile_setter c v = None"

fun preferences_setter ::
    "column \<Rightarrow> sql_value \<Rightarrow> (UserPreferences \<Rightarrow> UserPreferences) option" where
  "preferences_setter notifications_enabled (SqlBool b) =
     Some (\<lambda>p. p\<lparr>pr_notifications_enabled := b\<rparr>)"
| "preferences_setter language (SqlText s) =
     map_option (\<lambda>v p. p\<lparr>pr_language := v\<rparr>) (varchar 10 s)"
| "preferences_setter theme (SqlText s) =
     map_option (\<lambda>v p. p\<lparr>pr_theme := v\<rparr>) (varchar 20 s)"
| "preferences_setter updated_at (SqlTimestamp t) = Some (\<lambda>p. p\<lparr>pr_updated_at := t\<rparr>)"
| "preferences_setter c v = None"

text \<open>The SET clause as one function on rows, assignments applied from left to right.\<close>

fun compile_set ::
    "(column \<Rightarrow> sql_value \<Rightarrow> ('r \<Rightarrow> 'r) option) \<Rightarrow> instant \<Rightarrow> sql_value list \<Rightarrow>
     (column \<times> sql_expr) list \<Rightarrow> ('r \<Rightarrow> 'r) option" where
  "compile_set setter now vals [] = Some (\<lambda>r. r)"
| "compile_set setter now vals ((c, e) # assignments) =
     (case eval_expr now vals e of
        None \<Rightarrow> None
      | Some v \<Rightarrow>
          (case setter c v of
             None \<Rightarrow> None
           | Some f \<Rightarrow>
               (case compile_set setter now vals assignments of
                  None \<Rightarrow> None
                | Some g \<Rightarrow> Some (\<lambda>r. g (f r)))))"

text \<open>
  \<open>UPDATE table SET assignments WHERE user_id = $n RETURNING ...\<close> over the rows of a table with
  the key column \<open>key\<close>: the rows returned (those matched, updated) and the new table.
\<close>

definition update_where_user_id ::
    "(column \<Rightarrow> sql_value \<Rightarrow> ('r \<Rightarrow> 'r) option) \<Rightarrow> ('r \<Rightarrow> uuid) \<Rightarrow> instant \<Rightarrow>
     (column \<times> sql_expr) list \<Rightarrow> nat \<Rightarrow> sql_value list \<Rightarrow> 'r list \<Rightarrow>
     ServiceError + 'r list \<times> 'r list" where
  "update_where_user_id setter key now assignments n vals table =
     (case compile_set setter now vals assignments of
        None \<Rightarrow> Inl query_error
      | Some f \<Rightarrow>
          (case param vals n of
             Some (SqlUuid userId) \<Rightarrow>
               Inr (map f (filter (\<lambda>r. key r = userId) table),
                    map (\<lambda>r. if key r = userId then f r else r) table)
           | _ \<Rightarrow> Inl query_error))"

text \<open>
  \<open>if (updates.c !== undefined) { fields.push(`c = $${paramCounter++}`); values.push(updates.c) }\<close>
  on the triple of \<open>fields\<close> (here \<open>assignments\<close>), \<open>values\<close> and \<open>paramCounter\<close>.
\<close>

definition push_field ::
    "column \<Rightarrow> sql_value option \<Rightarrow> (column \<times> sql_expr) list \<times> sql_value list \<times> nat \<Rightarrow>
     (column \<times> sql_expr) list \<times> sql_value list \<times> nat" where
  "push_field c update b =
     (case b of (assignments, vals, paramCounter) \<Rightarrow>
        (case update of
           None \<Rightarrow> (assignments, vals, paramCounter)
         | Some v \<Rightarrow> (assignments @ [(c, Placeholder paramCounter)], vals @ [v], paramCounter + 1)))"

section \<open>repositories/user-repository.ts\<close>

text \<open>
  The INSERT statements name neither \<open>id\<close> nor the timestamps: the store fills them from
  \<open>gen_random_uuid()\<close> and \<open>CURRENT_TIMESTAMP\<close> (here \<open>new_id\<close> and \<open>now\<close>), and the other
  columns that the statement leaves out from the defaults of the schema. In \<open>users\<close> the
  columns are \<open>email VARCHAR(255)\<close> and \<open>username VARCHAR(100)\<close>, both UNIQUE; the
  constraints are checked on the values as they are stored.
\<close>

definition createUser ::
    "db \<Rightarrow> uuid \<Rightarrow> instant \<Rightarrow> string \<Rightarrow> digest \<Rightarrow> string \<Rightarrow> ServiceError + User \<times> db" where
  "createUser d new_id now email passwordHash username =
     (case varchar 255 email of
        None \<Rightarrow> Inl query_error
      | Some stored_email \<Rightarrow>
          (case varchar 100 username of
             None \<Rightarrow> Inl query_error
           | Some stored_username \<Rightarrow>
               if new_id \<in> set (map u_id (users d)) \<or>
                  stored_email \<in> set (map u_email (users d)) \<or>
                  stored_username \<in> set (map u_username (users d))
               then Inl query_error
               else
                 let row = \<lparr>u_id = new_id, u_email = stored_email,
                            u_username = stored_username,
                            u_created_at = now, u_updated_at = now, u_is_active = True,
                            u_password_hash = passwordHash\<rparr>
                 in Inr (select_user row, d\<lparr>users := users d @ [row]\<rparr>)))"

definition createUserProfile ::
    "db \<Rightarrow> uuid \<Rightarrow> instant \<Rightarrow> uuid \<Rightarrow> ServiceError + UserProfile \<times> db" where
  "createUserProfile d new_id now userId =
     (if new_id \<in> set (map up_id (user_profiles d)) \<or>
         userId \<in> set (map up_user_id (user_profiles d)) \<or>
         userId \<notin> set (map u_id (users d))
      then Inl query_error
      else
        let row = \<lparr>up_id = new_id, up_user_id = userId, up_avatar_url = None, up_level = 1,
                   up_experience = 0, up_stats_wins = 0, up_stats_losses = 0,
                   up_created_at = now, up_updated_at = now\<rparr>
        in Inr (row, d\<lparr>user_profiles := user_profiles d @ [row]\<rparr>))"

definition createUserPreferences ::
    "db \<Rightarrow> uuid \<Rightarrow> instant \<Rightarrow> uuid \<Rightarrow> ServiceError + UserPreferences \<times> db" where
  "createUserPreferences d new_id now userId =
     (if new_id \<in> set (map pr_id (user_preferences d)) \<or>
         userId \<in> set (map pr_user_id (user_preferences d)) \<or>
         userId \<notin> set (map u_id (users d))
      then Inl query_error
      else
        let row = \<lparr>pr_id = new_id, pr_user_id = userId, pr_notifications_enabled = True,
                   pr_language = ''en'', pr_theme = ''light'',
                   pr_created_at = now, pr_updated_at = now\<rparr>
        in Inr (row, d\<lparr>user_preferences := user_preferences d @ [row]\<rparr>))"

text \<open>
  The three lookups by a text take the text as a parameter of their SELECT: they fail
  on a text that the store rejects. The lookups by a user id take a UUID.
\<close>

definition findUserByEmail :: "db \<Rightarrow> string \<Rightarrow> ServiceError + User option" where
  "findUserByEmail d email =
     (if storable_text email
      then Inr (first_row (map select_user (filter (\<lambda>r. u_email r = email) (users d))))
      else Inl query_error)"

definition findUserByUsername :: "db \<Rightarrow> string \<Rightarrow> ServiceError + User option" where
  "findUserByUsername d username =
     (if storable_text username
      then Inr (first_row (map select_user (filter (\<lambda>r. u_username r = username) (users d))))
      else Inl query_error)"

definition findUserById :: "db \<Rightarrow> uuid \<Rightarrow> User option" where
  "findUserById d userId =
     first_row (map select_user (filter (\<lambda>r. u_id r = userId) (users d)))"

definition findUserWithPassword :: "db \<Rightarrow> string \<Rightarrow> ServiceError + users_row option" where
  "findUserWithPassword d email =
     (if storable_text email
      then Inr (first_row (filter (\<lambda>r. u_email r = email) (users d)))
      else Inl query_error)"

definition findUserProfile :: "db \<Rightarrow> uuid \<Rightarrow> UserProfile option" where
  "findUserProfile d userId = first_row (filter (\<lambda>r. up_user_id r = userId) (user_profiles d))"

definition findUserPreferences :: "db \<Rightarrow> uuid \<Rightarrow> UserPreferences option" where
  "findUserPreferences d userId =
     first_row (filter (\<lambda>r. pr_user_id r = userId) (user_preferences d))"

definition updateUserProfile ::
    "db \<Rightarrow> instant \<Rightarrow> uuid \<Rightarrow> UpdateProfileRequest \<Rightarrow> ServiceError + UserProfile \<times> db" where
  "updateUserProfile d now userId updates =
     (let b0 = ([], [], 1);
          b1 = push_field avatar_url (map_option SqlText (upq_avatar_url updates)) b0;
          b2 = push_field level (map_option SqlInt (upq_level updates)) b1;
          b3 = push_field experience (map_option SqlInt (upq_experience updates)) b2;
          b4 = push_field stats_wins (map_option SqlInt (upq_stats_wins updates)) b3;
          b5 = push_field stats_losses (map_option SqlInt (upq_stats_losses updates)) b4
      in case b5 of (assignments, vals, paramCounter) \<Rightarrow>
        (case update_where_user_id profile_setter up_user_id now
                (assignments @ [(updated_at, CURRENT_TIMESTAMP)]) paramCounter
                (vals @ [SqlUuid userId]) (user_profiles d) of
           Inl e \<Rightarrow> Inl e
         | Inr (rows, table) \<Rightarrow>
             if length rows = 0
             then Inl (ServiceError USER_NOT_FOUND ''User profile not found'' 404)
             else Inr (rows ! 0, d\<lparr>user_profiles := table\<rparr>)))"

definition updateUserPreferences ::
    "db \<Rightarrow> instant \<Rightarrow> uuid \<Rightarrow> UpdatePreferencesRequest \<Rightarrow>
     ServiceError + UserPreferences \<times> db" where
  "updateUserPreferences d now userId updates =
     (let b0 = ([], [], 1);
          b1 = push_field notifications_enabled
                 (map_option SqlBool (ufq_notifications_enabled updates)) b0;
          b2 = push_field language (map_option SqlText (ufq_language updates)) b1;
          b3 = push_field theme (map_option SqlText (ufq_theme updates)) b2
      in case b3 of (assignments, vals, paramCounter) \<Rightarrow>
        (case update_where_user_id preferences_setter pr_user_id now
                (assignments @ [(updated_at, CURRENT_TIMESTAMP)]) paramCounter
                (vals @ [SqlUuid userId]) (user_preferences d) of
           Inl e \<Rightarrow> Inl e
         | Inr (rows, table) \<Rightarrow>
             if length rows = 0
             then Inl (ServiceError USER_NOT_FOUND ''User preferences not found'' 404)
             else Inr (rows ! 0, d\<lparr>user_preferences := table\<rparr>)))"

definition createPasswordResetToken ::
    "db \<Rightarrow> uuid \<Rightarrow> instant \<Rightarrow> uuid \<Rightarrow> digest \<Rightarrow> instant \<Rightarrow>
     ServiceError + PasswordResetToken \<times> db" where
  "createPasswordResetToken d new_id now userId tokenHash expiresAt =
     (if new_id \<in> set (map rt_id (password_reset_tokens d)) \<or>
         userId \<notin> set (map u_id (users d))
      then Inl query_error
      else
        let row = \<lparr>rt_id = new_id, rt_user_id = userId, rt_token_hash = tokenHash,
                   rt_expires_at = expiresAt, rt_created_at = now\<rparr>
        in Inr (row, d\<lparr>password_reset_tokens := password_reset_tokens d @ [row]\<rparr>))"

text \<open>
  \<open>WHERE token_hash = $1 AND expires_at > CURRENT_TIMESTAMP ORDER BY created_at DESC LIMIT 1\<close>.
  The sort is stable: among tickets created at the same instant the earlier row comes
  first, where SQL leaves the order open.
\<close>

definition findPasswordResetToken :: "db \<Rightarrow> instant \<Rightarrow> digest \<Rightarrow> PasswordResetToken option" where
  "findPasswordResetToken d now tokenHash =
     first_row (take 1 (sort_key (\<lambda>t. - rt_created_at t)
       (filter (\<lambda>t. rt_token_hash t = tokenHash \<and> rt_expires_at t > now)
          (password_reset_tokens d))))"

definition deletePasswordResetToken :: "db \<Rightarrow> digest \<Rightarrow> db" where
  "deletePasswordResetToken d tokenHash =
     d\<lparr>password_reset_tokens :=
         filter (\<lambda>t. rt_token_hash t \<noteq> tokenHash) (password_reset_tokens d)\<rparr>"

definition updateUserPassword :: "db \<Rightarrow> instant \<Rightarrow> uuid \<Rightarrow> digest \<Rightarrow> db" where
  "updateUserPassword d now userId passwordHash =
     d\<lparr>users :=
         map (\<lambda>r. if u_id r = userId
                  then r\<lparr>u_password_hash := passwordHash, u_updated_at := now\<rparr> else r)
           (users d)\<rparr>"

section \<open>services/user-service.ts\<close>

definition SALT_ROUNDS :: nat where
  "SALT_ROUNDS = 10"

definition PASSWORD_MIN_LENGTH :: nat where
  "PASSWORD_MIN_LENGTH = 8"

text \<open>
  \<open>EMAIL_REGEX = /^[^\s@]+@[^\s@]+\.[^\s@]+$/\<close>. The class \<open>\s\<close> on code units below 256 is
  the tabulator to carriage return, the space and the no-break space. The string matches
  when its longest prefix of class characters is not empty and stops at an \<open>@\<close>, and what
  follows is made of class characters with a dot that is neither its first nor its last.
\<close>

definition is_space :: "char \<Rightarrow> bool" where
  "is_space c =
     (c \<in> set [CHR 0x09, CHR 0x0A, CHR 0x0B, CHR 0x0C, CHR 0x0D, CHR 0x20, CHR 0xA0])"

definition email_char :: "char \<Rightarrow> bool" where
  "email_char c = (\<not> is_space c \<and> c \<noteq> CHR ''@'')"

definition validateEmail :: "string \<Rightarrow> bool" where
  "validateEmail email =
     (takeWhile email_char email \<noteq> [] \<and>
      (case dropWhile email_char email of
         [] \<Rightarrow> False
       | c # domain \<Rightarrow>
           c = CHR ''@'' \<and> list_all email_char domain \<and> CHR ''.'' \<in> set (butlast (tl domain))))"

definition validatePassword :: "string \<Rightarrow> bool" where
  "validatePassword password = (length password \<ge> PASSWORD_MIN_LENGTH)"

text \<open>What \<open>registerUser\<close> draws from outside, in the order of its statements.\<close>

record register_env =
  reg_salt :: string
  reg_user_id :: uuid
  reg_user_now :: instant
  reg_profile_id :: uuid
  reg_profile_now :: instant
  reg_preferences_id :: uuid
  reg_preferences_now :: instant
  reg_access_clock :: instant
  reg_refresh_clock :: instant

definition registerUser ::
    "lib \<Rightarrow> config \<Rightarrow> register_env \<Rightarrow> db \<Rightarrow> RegisterRequest \<Rightarrow>
     (ServiceError + AuthResponse) \<times> db" where
  "registerUser L cfg env d data =
     (if \<not> validateEmail (rr_email data)
      then (Inl (ServiceError INVALID_EMAIL ''Invalid email format'' 400), d)
      else if \<not> validatePassword (rr_password data)
      then (Inl (ServiceError WEAK_PASSWORD ''Password must be at least 8 characters long'' 400), d)
      else
        (case findUserByEmail d (rr_email data) of
           Inl e \<Rightarrow> (Inl e, d)
         | Inr (Some existingUserByEmail) \<Rightarrow>
             (Inl (ServiceError EMAIL_TAKEN ''Email is already registered'' 409), d)
         | Inr None \<Rightarrow>
        (case findUserByUsername d (rr_username data) of
           Inl e \<Rightarrow> (Inl e, d)
         | Inr (Some existingUserByUsername) \<Rightarrow>
             (Inl (ServiceError USERNAME_TAKEN ''Username is already taken'' 409), d)
         | Inr None \<Rightarrow>
        (let passwordHash = bcrypt_hash L (reg_salt env) (rr_password data) SALT_ROUNDS
         in case createUser d (reg_user_id env) (reg_user_now env) (rr_email data) passwordHash
                   (rr_username data) of
           Inl e \<Rightarrow> (Inl e, d)
         | Inr (user, d1) \<Rightarrow>
        (case createUserProfile d1 (reg_profile_id env) (reg_profile_now env) (u_id user) of
           Inl e \<Rightarrow> (Inl e, d1)
         | Inr (profile, d2) \<Rightarrow>
        (case createUserPreferences d2 (reg_preferences_id env) (reg_preferences_now env)
                (u_id user) of
           Inl e \<Rightarrow> (Inl e, d2)
         | Inr (preferences, d3) \<Rightarrow>
        (let token = generateAccessToken L cfg (reg_access_clock env)
                       (u_id user) (u_email user) (u_username user);
             refreshToken = generateRefreshToken L cfg (reg_refresh_clock env)
                       (u_id user) (u_email user) (u_username user)
         in (Inr \<lparr>ar_user = user, ar_token = token, ar_refreshToken = refreshToken\<rparr>,
             d3))))))))"

text \<open>
  \<open>loginUser\<close> and \<open>refreshAccessToken\<close> only read the store. An error of a lookup is
  the error of the call: no function of the service catches it.
\<close>

definition loginUser ::
    "lib \<Rightarrow> config \<Rightarrow> instant \<Rightarrow> instant \<Rightarrow> db \<Rightarrow> LoginRequest \<Rightarrow> ServiceError + AuthResponse" where
  "loginUser L cfg access_clock refresh_clock d data =
     (if \<not> validateEmail (lr_email data)
      then Inl (ServiceError INVALID_EMAIL ''Invalid email format'' 400)
      else
        (case findUserWithPassword d (lr_email data) of
           Inl e \<Rightarrow> Inl e
         | Inr None \<Rightarrow>
             Inl (ServiceError INVALID_CREDENTIALS ''Invalid email or password'' 401)
         | Inr (Some userWithPassword) \<Rightarrow>
             (let isPasswordValid =
                    bcrypt_compare L (lr_password data) (u_password_hash userWithPassword)
              in if \<not> isPasswordValid
                 then Inl (ServiceError INVALID_CREDENTIALS ''Invalid email or password'' 401)
                 else
                   (let user = select_user userWithPassword;
                        token = generateAccessToken L cfg access_clock
                                  (u_id user) (u_email user) (u_username user);
                        refreshToken = generateRefreshToken L cfg refresh_clock
                                  (u_id user) (u_email user) (u_username user)
                    in Inr \<lparr>ar_user = user, ar_token = token,
                            ar_refreshToken = refreshToken\<rparr>))))"

text \<open>
  \<open>validateToken\<close> throws, and \<open>refreshAccessToken\<close> has no handler around the call: its
  error is the error of the whole call. The test \<open>!validation.valid || !validation.userId\<close>
  is evaluated left to right.
\<close>

definition refreshAccessToken ::
    "lib \<Rightarrow> config \<Rightarrow> instant \<Rightarrow> instant \<Rightarrow> db \<Rightarrow> token \<Rightarrow> ServiceError + token" where
  "refreshAccessToken L cfg verify_clock sign_clock d refreshToken =
     (case validateToken L cfg verify_clock refreshToken of
        Inl e \<Rightarrow> Inl e
      | Inr validation \<Rightarrow>
          if \<not> vr_valid validation
          then Inl (ServiceError INVALID_TOKEN ''Invalid refresh token'' 401)
          else
            (case vr_userId validation of
               None \<Rightarrow> Inl (ServiceError INVALID_TOKEN ''Invalid refresh token'' 401)
             | Some userId \<Rightarrow>
                 (case findUserById d userId of
                    None \<Rightarrow> Inl (ServiceError USER_NOT_FOUND ''User not found'' 404)
                  | Some user \<Rightarrow>
                      Inr (generateAccessToken L cfg sign_clock
                             (u_id user) (u_email user) (u_username user)))))"

definition getUserWithProfile :: "db \<Rightarrow> uuid \<Rightarrow> ServiceError + UserWithProfile" where
  "getUserWithProfile d userId =
     (case findUserById d userId of
        None \<Rightarrow> Inl (ServiceError USER_NOT_FOUND ''User not found'' 404)
      | Some user \<Rightarrow>
          (case findUserProfile d userId of
             None \<Rightarrow> Inl (ServiceError USER_NOT_FOUND ''User profile not found'' 404)
           | Some profile \<Rightarrow>
               (case findUserPreferences d userId of
                  None \<Rightarrow> Inl (ServiceError USER_NOT_FOUND ''User preferences not found'' 404)
                | Some preferences \<Rightarrow>
                    Inr \<lparr>uwp_user = user, uwp_profile = profile,
                         uwp_preferences = preferences\<rparr>)))"

definition updateProfile ::
    "db \<Rightarrow> instant \<Rightarrow> uuid \<Rightarrow> UpdateProfileRequest \<Rightarrow> (ServiceError + UserWithProfile) \<times> db" where
  "updateProfile d now userId updates =
     (case findUserById d userId of
        None \<Rightarrow> (Inl (ServiceError USER_NOT_FOUND ''User not found'' 404), d)
      | Some user \<Rightarrow>
          (case updateUserProfile d now userId updates of
             Inl e \<Rightarrow> (Inl e, d)
           | Inr (profile, d1) \<Rightarrow>
               (case findUserPreferences d1 userId of
                  None \<Rightarrow>
                    (Inl (ServiceError USER_NOT_FOUND ''User preferences not found'' 404), d1)
                | Some preferences \<Rightarrow>
                    (Inr \<lparr>uwp_user = user, uwp_profile = profile,
                          uwp_preferences = preferences\<rparr>, d1))))"

definition updatePreferences ::
    "db \<Rightarrow> instant \<Rightarrow> uuid \<Rightarrow> UpdatePreferencesRequest \<Rightarrow>
     (ServiceError + UserWithProfile) \<times> db" where
  "updatePreferences d now userId updates =
     (case findUserById d userId of
        None \<Rightarrow> (Inl (ServiceError USER_NOT_FOUND ''User not found'' 404), d)
      | Some user \<Rightarrow>
          (case updateUserPreferences d now userId updates of
             Inl e \<Rightarrow> (Inl e, d)
           | Inr (preferences, d1) \<Rightarrow>
               (case findUserProfile d1 userId of
                  None \<Rightarrow>
                    (Inl (ServiceError USER_NOT_FOUND ''User profile not found'' 404), d1)
                | Some profile \<Rightarrow>
                    (Inr \<lparr>uwp_user = user, uwp_profile = profile,
                          uwp_preferences = preferences\<rparr>, d1))))"

text \<open>
  What \<open>requestPasswordReset\<close> and \<open>resetPassword\<close> draw from outside. The results are the
  \<open>message\<close> fields of the objects returned; the line written to the console is not part
  of the model.
\<close>

record request_env =
  rq_uuid :: string
  rq_salt :: string
  rq_date_now :: instant
  rq_ticket_id :: uuid
  rq_insert_now :: instant

definition requestPasswordReset ::
    "lib \<Rightarrow> request_env \<Rightarrow> db \<Rightarrow> PasswordResetRequest \<Rightarrow> (ServiceError + string) \<times> db" where
  "requestPasswordReset L env d data =
     (case findUserByEmail d (prq_email data) of
        Inl e \<Rightarrow> (Inl e, d)
      | Inr None \<Rightarrow> (Inr ''If the email exists, a password reset link has been sent'', d)
      | Inr (Some user) \<Rightarrow>
          (let resetToken = rq_uuid env;
               tokenHash = bcrypt_hash L (rq_salt env) resetToken SALT_ROUNDS;
               expiresAt = rq_date_now env + 60 * 60 * 1000
           in case createPasswordResetToken d (rq_ticket_id env) (rq_insert_now env)
                     (u_id user) tokenHash expiresAt of
             Inl e \<Rightarrow> (Inl e, d)
           | Inr (ticket, d1) \<Rightarrow>
               (Inr ''If the email exists, a password reset link has been sent'', d1)))"

record confirm_env =
  rc_token_salt :: string
  rc_select_now :: instant
  rc_date_now :: instant
  rc_password_salt :: string
  rc_update_now :: instant

definition resetPassword ::
    "lib \<Rightarrow> confirm_env \<Rightarrow> db \<Rightarrow> PasswordResetConfirm \<Rightarrow> (ServiceError + string) \<times> db" where
  "resetPassword L env d data =
     (if \<not> validatePassword (prc_newPassword data)
      then (Inl (ServiceError WEAK_PASSWORD ''Password must be at least 8 characters long'' 400), d)
      else
        (let tokenHash = bcrypt_hash L (rc_token_salt env) (prc_token data) SALT_ROUNDS
         in case findPasswordResetToken d (rc_select_now env) tokenHash of
           None \<Rightarrow>
             (Inl (ServiceError INVALID_RESET_TOKEN ''Invalid or expired reset token'' 400), d)
         | Some resetToken \<Rightarrow>
             if rc_date_now env > rt_expires_at resetToken
             then (Inl (ServiceError RESET_TOKEN_EXPIRED ''Reset token has expired'' 400), d)
             else
               (let newPasswordHash =
                      bcrypt_hash L (rc_password_salt env) (prc_newPassword data) SALT_ROUNDS;
                    d1 = updateUserPassword d (rc_update_now env) (rt_user_id resetToken)
                           newPasswordHash;
                    d2 = deletePasswordResetToken d1 tokenHash
                in (Inr ''Password has been reset successfully'', d2))))"

section \<open>Reference behaviour of the partial updates\<close>

text \<open>
  What a partial update is to do to the row it meets, field by field: a field present in
  the request takes its value, a field absent keeps the old one, and the update
  timestamp is set. The statements that the repository assembles are compared with it.
\<close>

definition spec_profile_update ::
    "instant \<Rightarrow> UpdateProfileRequest \<Rightarrow> UserProfile \<Rightarrow> UserProfile" where
  "spec_profile_update now updates p =
     \<lparr>up_id = up_id p, up_user_id = up_user_id p,
      up_avatar_url =
        (case upq_avatar_url updates of None \<Rightarrow> up_avatar_url p | Some a \<Rightarrow> Some a),
      up_level = (case upq_level updates of None \<Rightarrow> up_level p | Some n \<Rightarrow> n),
      up_experience = (case upq_experience updates of None \<Rightarrow> up_experience p | Some n \<Rightarrow> n),
      up_stats_wins = (case upq_stats_wins updates of None \<Rightarrow> up_stats_wins p | Some n \<Rightarrow> n),
      up_stats_losses =
        (case upq_stats_losses updates of None \<Rightarrow> up_stats_losses p | Some n \<Rightarrow> n),
      up_created_at = up_created_at p, up_updated_at = now\<rparr>"

definition spec_preferences_update ::
    "instant \<Rightarrow> UpdatePreferencesRequest \<Rightarrow> UserPreferences \<Rightarrow> UserPreferences" where
  "spec_preferences_update now updates p =
     \<lparr>pr_id = pr_id p, pr_user_id = pr_user_id p,
      pr_notifications_enabled =
        (case ufq_notifications_enabled updates of
           None \<Rightarrow> pr_notifications_enabled p | Some b \<Rightarrow> b),
      pr_language = (case ufq_language updates of None \<Rightarrow> pr_language p | Some s \<Rightarrow> s),
      pr_theme = (case ufq_theme updates of None \<Rightarrow> pr_theme p | Some s \<Rightarrow> s),
      pr_created_at = pr_created_at p, pr_updated_at = now\<rparr>"

text \<open>
  The requests that the columns can take as they are: no text with the code unit 0, the
  avatar of at most 500 characters, the language of at most 10, the theme of at most 20,
  the numbers 32-bit integers.
\<close>

definition profile_update_fits :: "UpdateProfileRequest \<Rightarrow> bool" where
  "profile_update_fits updates =
     ((case upq_avatar_url updates of
         None \<Rightarrow> True | Some a \<Rightarrow> storable_text a \<and> length a \<le> 500) \<and>
      (case upq_level updates of None \<Rightarrow> True | Some n \<Rightarrow> int4 n) \<and>
      (case upq_experience updates of None \<Rightarrow> True | Some n \<Rightarrow> int4 n) \<and>
      (case upq_stats_wins updates of None \<Rightarrow> True | Some n \<Rightarrow> int4 n) \<and>
      (case upq_stats_losses updates of None \<Rightarrow> True | Some n \<Rightarrow> int4 n))"

definition preferences_update_fits :: "UpdatePreferencesRequest \<Rightarrow> bool" where
  "preferences_update_fits updates =
     ((case ufq_language updates of
         None \<Rightarrow> True | Some s \<Rightarrow> storable_text s \<and> length s \<le> 10) \<and>
      (case ufq_theme updates of
         None \<Rightarrow> True | Some s \<Rightarrow> storable_text s \<and> length s \<le> 20))"

text \<open>
  A call fails with the error code \<open>c\<close>.
\<close>

definition fails_with :: "ErrorCode \<Rightarrow> ServiceError + 'a \<Rightarrow> bool" where
  "fails_with c r = (case r of Inl e \<Rightarrow> code e = c | Inr x \<Rightarrow> False)"

section \<open>Concrete instances\<close>

text \<open>
  The examples run the service on these: the configuration with the defaults of
  jwt-service.ts (24 hours and 7 days in seconds), two stand-ins for the library
  primitives (chosen to compute, not to be secure), and a store with one registered
  user.
\<close>

definition default_config :: config where
  "default_config =
     \<lparr>JWT_SECRET = ''your-super-secret-jwt-key-change-in-production'',
      JWT_EXPIRY = 86400, JWT_REFRESH_EXPIRY = 604800\<rparr>"

definition demo_lib :: lib where
  "demo_lib =
     \<lparr>bcrypt_kdf = (\<lambda>salt rounds data. salt @ ''$'' @ data),
      jwt_signature = (\<lambda>secret claims. secret @ ''.'' @ tp_email claims @ ''.'' @ tp_username claims)\<rparr>"

definition alice :: users_row where
  "alice =
     \<lparr>u_id = Uuid 1, u_email = ''alice@example.com'', u_username = ''alice'',
      u_created_at = 1000, u_updated_at = 1000, u_is_active = True,
      u_password_hash = bcrypt_hash demo_lib ''salt-1'' ''password123'' SALT_ROUNDS\<rparr>"

definition alice_profile :: UserProfile where
  "alice_profile =
     \<lparr>up_id = Uuid 2, up_user_id = Uuid 1, up_avatar_url = None, up_level = 1,
      up_experience = 0, up_stats_wins = 0, up_stats_losses = 0,
      up_created_at = 1000, up_updated_at = 1000\<rparr>"

definition alice_preferences :: UserPreferences where
  "alice_preferences =
     \<lparr>pr_id = Uuid 3, pr_user_id = Uuid 1, pr_notifications_enabled = True,
      pr_language = ''en'', pr_theme = ''light'', pr_created_at = 1000, pr_updated_at = 1000\<rparr>"

definition demo_db :: db where
  "demo_db =
     \<lparr>users = [alice], user_profiles = [alice_profile],
      user_preferences = [alice_preferences], password_reset_tokens = []\<rparr>"

definition demo_register_env :: register_env where
  "demo_register_env =
     \<lparr>reg_salt = ''salt-2'', reg_user_id = Uuid 11, reg_user_now = 2000,
      reg_profile_id = Uuid 12, reg_profile_now = 2001,
      reg_preferences_id = Uuid 13, reg_preferences_now = 2002,
      reg_access_clock = 2, reg_refresh_clock = 3\<rparr>"

definition demo_request_env :: request_env where
  "demo_request_env =
     \<lparr>rq_uuid = ''0b0e7a1c-5f43-4c8e-9d2a-6f1e2b3c4d5e'', rq_salt = ''salt-A'',
      rq_date_now = 5000, rq_ticket_id = Uuid 4, rq_insert_now = 5001\<rparr>"

definition empty_db :: db where
  "empty_db = \<lparr>users = [], user_profiles = [], user_preferences = [], password_reset_tokens = []\<rparr>"

text \<open>
  The store after the registered user has asked for a password reset, and a
  confirmation with the secret of the ticket; the examples give it the salts they need.
\<close>

definition ticket_db :: "lib \<Rightarrow> db" where
  "ticket_db L =
     snd (requestPasswordReset L demo_request_env demo_db \<lparr>prq_email = ''alice@example.com''\<rparr>)"

definition demo_confirm_env :: confirm_env where
  "demo_confirm_env =
     \<lparr>rc_token_salt = ''salt-A'', rc_select_now = 6000, rc_date_now = 6001,
      rc_password_salt = ''salt-C'', rc_update_now = 6002\<rparr>"

definition demo_confirm :: PasswordResetConfirm where
  "demo_confirm =
     \<lparr>prc_token = ''0b0e7a1c-5f43-4c8e-9d2a-6f1e2b3c4d5e'', prc_newPassword = ''new-password-1''\<rparr>"

text \<open>
  A well-formed email with the code unit 0 in it, a username of 101 characters, the
  store of the registered user without the profile and without the preferences, and two
  partial updates.
\<close>

definition nul_email :: string where
  "nul_email = ''a'' @ [CHR 0x00] @ ''b@c.d''"

definition long_username :: string where
  "long_username = replicate 101 CHR ''a''"

definition no_profile_db :: db where
  "no_profile_db = demo_db\<lparr>user_profiles := []\<rparr>"

definition no_preferences_db :: db where
  "no_preferences_db = demo_db\<lparr>user_preferences := []\<rparr>"

definition demo_profile_update :: UpdateProfileRequest where
  "demo_profile_update =
     \<lparr>upq_avatar_url = Some ''https://example.com/avatar.jpg'', upq_level = Some 5,
      upq_experience = Some 1000, upq_stats_wins = None, upq_stats_losses = None\<rparr>"

definition demo_preferences_update :: UpdatePreferencesRequest where
  "demo_preferences_update =
     \<lparr>ufq_notifications_enabled = Some False, ufq_language = None, ufq_theme = Some ''dark''\<rparr>"

section \<open>The token codec\<close>

lemma validateToken_Malformed:
  "validateToken L cfg clock (Malformed s) = Inl (ServiceError INVALID_TOKEN ''Invalid token'' 401)"
  by (simp add: validateToken_def jwt_verify_def)

lemma validateToken_Jws:
  "validateToken L cfg clock (Jws claims sig) =
     (if sig \<noteq> jwt_signature L (JWT_SECRET cfg) claims
      then Inl (ServiceError INVALID_TOKEN ''Invalid token'' 401)
      else if jwt_exp claims \<le> clock
      then Inl (ServiceError EXPIRED_TOKEN ''Token has expired'' 401)
      else Inr \<lparr>vr_valid = True, vr_userId = Some (tp_userId claims),
                vr_email = Some (tp_email claims), vr_username = Some (tp_username claims)\<rparr>)"
  by (simp add: validateToken_def jwt_verify_def)

lemma generateAccessToken_Jws:
  "generateAccessToken L cfg issued userId email username =
     Jws \<lparr>tp_userId = userId, tp_email = email, tp_username = username, tp_type = access,
          jwt_iat = issued, jwt_exp = issued + JWT_EXPIRY cfg\<rparr>
       (jwt_signature L (JWT_SECRET cfg)
          \<lparr>tp_userId = userId, tp_email = email, tp_username = username, tp_type = access,
           jwt_iat = issued, jwt_exp = issued + JWT_EXPIRY cfg\<rparr>)"
  by (simp add: generateAccessToken_def jwt_sign_def Let_def)

lemma generateRefreshToken_Jws:
  "generateRefreshToken L cfg issued userId email username =
     Jws \<lparr>tp_userId = userId, tp_email = email, tp_username = username, tp_type = refresh,
          jwt_iat = issued, jwt_exp = issued + JWT_REFRESH_EXPIRY cfg\<rparr>
       (jwt_signature L (JWT_SECRET cfg)
          \<lparr>tp_userId = userId, tp_email = email, tp_username = username, tp_type = refresh,
           jwt_iat = issued, jwt_exp = issued + JWT_REFRESH_EXPIRY cfg\<rparr>)"
  by (simp add: generateRefreshToken_def jwt_sign_def Let_def)

lemma validateToken_failure_kinds:
  "validateToken L cfg clock t = Inl e \<Longrightarrow>
     e = ServiceError INVALID_TOKEN ''Invalid token'' 401 \<or>
     e = ServiceError EXPIRED_TOKEN ''Token has expired'' 401 \<and>
     (\<exists>c. t = Jws c (jwt_signature L (JWT_SECRET cfg) c) \<and> jwt_exp c \<le> clock)"
  by (cases t) (auto simp: validateToken_Malformed validateToken_Jws split: if_splits)

text \<open>
  C4. A token issued by \<open>generateAccessToken\<close> or \<open>generateRefreshToken\<close> at the clock
  reading \<open>issued\<close>, with the time to live of its kind, validates at every clock reading
  before \<open>issued\<close> plus the time to live, with the user id, email and username it was
  issued for, and fails with \<open>EXPIRED_TOKEN\<close> at every reading after it. Every other
  failure of \<open>validateToken\<close> is \<open>INVALID_TOKEN\<close>: a malformed token; a token whose
  signature is not the signature of its claims under the configured secret, which is
  what a changed payload and a token signed with another secret are; and, for any token
  at all, a failure that is not \<open>INVALID_TOKEN\<close> is \<open>EXPIRED_TOKEN\<close> for a correctly signed
  token whose expiry has passed.
\<close>

theorem validateToken_lifetime:
  "(clock < issued + JWT_EXPIRY cfg \<longrightarrow>
      validateToken L cfg clock (generateAccessToken L cfg issued userId email username) =
        Inr \<lparr>vr_valid = True, vr_userId = Some userId, vr_email = Some email,
             vr_username = Some username\<rparr>) \<and>
   (issued + JWT_EXPIRY cfg < clock \<longrightarrow>
      validateToken L cfg clock (generateAccessToken L cfg issued userId email username) =
        Inl (ServiceError EXPIRED_TOKEN ''Token has expired'' 401)) \<and>
   (clock < issued + JWT_REFRESH_EXPIRY cfg \<longrightarrow>
      validateToken L cfg clock (generateRefreshToken L cfg issued userId email username) =
        Inr \<lparr>vr_valid = True, vr_userId = Some userId, vr_email = Some email,
             vr_username = Some username\<rparr>) \<and>
   (issued + JWT_REFRESH_EXPIRY cfg < clock \<longrightarrow>
      validateToken L cfg clock (generateRefreshToken L cfg issued userId email username) =
        Inl (ServiceError EXPIRED_TOKEN ''Token has expired'' 401)) \<and>
   validateToken L cfg clock (Malformed s) =
     Inl (ServiceError INVALID_TOKEN ''Invalid token'' 401) \<and>
   (sig \<noteq> jwt_signature L (JWT_SECRET cfg) claims \<longrightarrow>
      validateToken L cfg clock (Jws claims sig) =
        Inl (ServiceError INVALID_TOKEN ''Invalid token'' 401)) \<and>
   (validateToken L cfg clock t = Inl e \<longrightarrow>
      e = ServiceError INVALID_TOKEN ''Invalid token'' 401 \<or>
      e = ServiceError EXPIRED_TOKEN ''Token has expired'' 401 \<and>
      (\<exists>c. t = Jws c (jwt_signature L (JWT_SECRET cfg) c) \<and> jwt_exp c \<le> clock))"
  using validateToken_failure_kinds [of L cfg clock t e]
  by (simp add: validateToken_Malformed validateToken_Jws generateAccessToken_Jws
      generateRefreshToken_Jws)

theorem validateToken_lifetime_witness:
  "validateToken demo_lib default_config 86449
     (generateAccessToken demo_lib default_config 50 (Uuid 1) ''alice@example.com'' ''alice'') =
     Inr \<lparr>vr_valid = True, vr_userId = Some (Uuid 1), vr_email = Some ''alice@example.com'',
          vr_username = Some ''alice''\<rparr> \<and>
   validateToken demo_lib default_config 86451
     (generateAccessToken demo_lib default_config 50 (Uuid 1) ''alice@example.com'' ''alice'') =
     Inl (ServiceError EXPIRED_TOKEN ''Token has expired'' 401) \<and>
   validateToken demo_lib default_config 86451
     (generateRefreshToken demo_lib default_config 50 (Uuid 1) ''alice@example.com'' ''alice'') =
     Inr \<lparr>vr_valid = True, vr_userId = Some (Uuid 1), vr_email = Some ''alice@example.com'',
          vr_username = Some ''alice''\<rparr> \<and>
   validateToken demo_lib default_config 604851
     (generateRefreshToken demo_lib default_config 50 (Uuid 1) ''alice@example.com'' ''alice'') =
     Inl (ServiceError EXPIRED_TOKEN ''Token has expired'' 401) \<and>
   validateToken demo_lib default_config 86449 (Malformed ''invalid.token.here'') =
     Inl (ServiceError INVALID_TOKEN ''Invalid token'' 401) \<and>
   validateToken demo_lib default_config 86449
     (Jws \<lparr>tp_userId = Uuid 1, tp_email = ''mallory@example.com'', tp_username = ''alice'',
           tp_type = access, jwt_iat = 50, jwt_exp = 86450\<rparr>
        (jwt_signature demo_lib (JWT_SECRET default_config)
           \<lparr>tp_userId = Uuid 1, tp_email = ''alice@example.com'', tp_username = ''alice'',
            tp_type = access, jwt_iat = 50, jwt_exp = 86450\<rparr>)) =
     Inl (ServiceError INVALID_TOKEN ''Invalid token'' 401) \<and>
   (\<exists>c. generateAccessToken demo_lib default_config 50 (Uuid 1) ''alice@example.com'' ''alice'' =
        Jws c (jwt_signature demo_lib (JWT_SECRET default_config) c) \<and> jwt_exp c \<le> 86451)"
proof -
  let ?tampered = "\<lparr>tp_userId = Uuid 1, tp_email = ''mallory@example.com'', tp_username = ''alice'',
           tp_type = access, jwt_iat = 50, jwt_exp = 86450\<rparr>"
  let ?sig = "jwt_signature demo_lib (JWT_SECRET default_config)
           \<lparr>tp_userId = Uuid 1, tp_email = ''alice@example.com'', tp_username = ''alice'',
            tp_type = access, jwt_iat = 50, jwt_exp = 86450\<rparr>"
  have before: "(86449::int) < 50 + JWT_EXPIRY default_config"
    and after: "50 + JWT_EXPIRY default_config < (86451::int)"
    and before': "(86451::int) < 50 + JWT_REFRESH_EXPIRY default_config"
    and after': "50 + JWT_REFRESH_EXPIRY default_config < (604851::int)"
    by (simp_all add: default_config_def)
  have forged: "?sig \<noteq> jwt_signature demo_lib (JWT_SECRET default_config) ?tampered"
    by (simp add: demo_lib_def)
  have kinds: "ServiceError EXPIRED_TOKEN ''Token has expired'' 401 \<noteq>
      ServiceError INVALID_TOKEN ''Invalid token'' 401"
    by (simp add: ServiceError_def)
  show ?thesis
    using before after before' after' forged kinds
      validateToken_lifetime [where clock = 86449 and issued = 50 and cfg = default_config
        and L = demo_lib and userId = "Uuid 1" and email = "''alice@example.com''"
        and username = "''alice''" and s = "''invalid.token.here''" and sig = ?sig
        and claims = ?tampered]
      validateToken_lifetime [where clock = 86451 and issued = 50 and cfg = default_config
        and L = demo_lib and userId = "Uuid 1" and email = "''alice@example.com''"
        and username = "''alice''"
        and t = "generateAccessToken demo_lib default_config 50 (Uuid 1)
          ''alice@example.com'' ''alice''"
        and e = "ServiceError EXPIRED_TOKEN ''Token has expired'' 401"]
      validateToken_lifetime [where clock = 604851 and issued = 50 and cfg = default_config
        and L = demo_lib and userId = "Uuid 1" and email = "''alice@example.com''"
        and username = "''alice''"]
    by blast
qed

section \<open>Reading the store\<close>

lemma first_row_Nil: "first_row [] = None"
  by (simp add: first_row_def)

lemma first_row_Cons: "first_row (x # xs) = Some x"
  by (simp add: first_row_def)

lemma first_row_None_iff: "first_row xs = None \<longleftrightarrow> xs = []"
  by (cases xs) (simp_all add: first_row_Nil first_row_Cons)

lemma first_row_Some_mem: "first_row xs = Some x \<Longrightarrow> x \<in> set xs"
  by (cases xs) (simp_all add: first_row_Nil first_row_Cons)

lemma findUserByEmail_unstorable:
  "\<not> storable_text email \<Longrightarrow> findUserByEmail d email = Inl query_error"
  by (simp add: findUserByEmail_def)

lemma findUserByEmail_free:
  "storable_text email \<Longrightarrow> email \<notin> set (map u_email (users d)) \<Longrightarrow>
     findUserByEmail d email = Inr None"
  by (auto simp: findUserByEmail_def first_row_None_iff filter_empty_conv)

lemma findUserByEmail_taken:
  assumes "storable_text email" and "email \<in> set (map u_email (users d))"
  shows "\<exists>user. findUserByEmail d email = Inr (Some user)"
proof -
  from assms(2) have "filter (\<lambda>r. u_email r = email) (users d) \<noteq> []"
    by (auto simp: filter_empty_conv)
  then obtain r rest where "filter (\<lambda>r. u_email r = email) (users d) = r # rest"
    by (cases "filter (\<lambda>r. u_email r = email) (users d)") auto
  with assms(1) show ?thesis
    by (simp add: findUserByEmail_def first_row_Cons)
qed

lemma findUserByUsername_free:
  "storable_text username \<Longrightarrow> username \<notin> set (map u_username (users d)) \<Longrightarrow>
     findUserByUsername d username = Inr None"
  by (auto simp: findUserByUsername_def first_row_None_iff filter_empty_conv)

lemma findUserByUsername_taken:
  assumes "storable_text username" and "username \<in> set (map u_username (users d))"
  shows "\<exists>user. findUserByUsername d username = Inr (Some user)"
proof -
  from assms(2) have "filter (\<lambda>r. u_username r = username) (users d) \<noteq> []"
    by (auto simp: filter_empty_conv)
  then obtain r rest where "filter (\<lambda>r. u_username r = username) (users d) = r # rest"
    by (cases "filter (\<lambda>r. u_username r = username) (users d)") auto
  with assms(1) show ?thesis
    by (simp add: findUserByUsername_def first_row_Cons)
qed

lemma findUserWithPassword_free:
  "storable_text email \<Longrightarrow> email \<notin> set (map u_email (users d)) \<Longrightarrow>
     findUserWithPassword d email = Inr None"
  by (auto simp: findUserWithPassword_def first_row_None_iff filter_empty_conv)

lemma findUserByEmail_Some:
  assumes "findUserByEmail d email = Inr (Some user)"
  shows "u_email user = email" and "u_id user \<in> set (map u_id (users d))"
proof -
  from assms have "first_row (map select_user (filter (\<lambda>r. u_email r = email) (users d))) =
      Some user"
    by (simp add: findUserByEmail_def split: if_splits)
  then have "user \<in> set (map select_user (filter (\<lambda>r. u_email r = email) (users d)))"
    by (rule first_row_Some_mem)
  then obtain r where r: "r \<in> set (users d)" "u_email r = email" "user = select_user r"
    by auto
  from r show "u_email user = email"
    by (simp add: select_user_def)
  from r have "u_id user = u_id r"
    by (simp add: select_user_def)
  with r show "u_id user \<in> set (map u_id (users d))"
    by force
qed

lemma findUserById_None_iff:
  "findUserById d userId = None \<longleftrightarrow> userId \<notin> set (map u_id (users d))"
  by (auto simp: findUserById_def first_row_None_iff filter_empty_conv)

lemma findUserById_Some:
  assumes "findUserById d userId = Some user"
  shows "u_id user = userId" and "userId \<in> set (map u_id (users d))"
proof -
  from assms have "user \<in> set (map select_user (filter (\<lambda>r. u_id r = userId) (users d)))"
    unfolding findUserById_def by (rule first_row_Some_mem)
  then obtain r where r: "r \<in> set (users d)" "u_id r = userId" "user = select_user r"
    by auto
  from r show "u_id user = userId"
    by (simp add: select_user_def)
  from r show "userId \<in> set (map u_id (users d))"
    by force
qed

lemma varchar_fits: "storable_text s \<Longrightarrow> length s \<le> n \<Longrightarrow> varchar n s = Some s"
  by (simp add: varchar_def)

section \<open>Facts about the concrete instances\<close>

lemma validateEmail_alice: "validateEmail ''alice@example.com''"
  by code_simp

lemma validateEmail_nobody: "validateEmail ''nonexistent@example.com''"
  by code_simp

lemma validateEmail_bob: "validateEmail ''bob@example.com''"
  by code_simp

lemma not_validateEmail_invalid: "\<not> validateEmail ''invalid-email''"
  by code_simp

lemma validatePassword_simps:
  "validatePassword ''password123''" "\<not> validatePassword ''weak''"
  by (simp_all add: validatePassword_def PASSWORD_MIN_LENGTH_def)

lemma findUserById_demo: "findUserById demo_db (Uuid 1) = Some (select_user alice)"
  by (simp add: findUserById_def demo_db_def alice_def first_row_Cons)

lemma validatePassword_new:
  "validatePassword ''new-password-1''" "validatePassword ''new-password-2''"
  by (simp_all add: validatePassword_def PASSWORD_MIN_LENGTH_def)

lemma demo_db_finds:
  "findUserById demo_db (Uuid 1) = Some (select_user alice)"
  "findUserProfile demo_db (Uuid 1) = Some alice_profile"
  "findUserPreferences demo_db (Uuid 1) = Some alice_preferences"
  "findUserById demo_db (Uuid 9) = None"
  by (simp_all add: findUserById_def findUserProfile_def findUserPreferences_def demo_db_def
      alice_def alice_profile_def alice_preferences_def first_row_Nil first_row_Cons)

lemma validateEmail_nul: "validateEmail nul_email"
  unfolding nul_email_def by code_simp

lemma storable_text_demo:
  "storable_text ''alice@example.com''" "storable_text ''bob@example.com''"
  "storable_text ''nonexistent@example.com''" "storable_text ''alice''" "storable_text ''bob''"
  "\<not> storable_text nul_email" "storable_text long_username"
  by (simp_all add: storable_text_def nul_email_def long_username_def)

lemma length_long_username: "length long_username = 101"
  by (simp add: long_username_def)

lemma demo_db_columns:
  "map u_id (users demo_db) = [Uuid 1]"
  "map u_email (users demo_db) = [''alice@example.com'']"
  "map u_username (users demo_db) = [''alice'']"
  by (simp_all add: demo_db_def alice_def)

lemma ticket_db_eq:
  "ticket_db L =
     demo_db\<lparr>password_reset_tokens :=
       [\<lparr>rt_id = Uuid 4, rt_user_id = Uuid 1,
         rt_token_hash =
           bcrypt_hash L ''salt-A'' ''0b0e7a1c-5f43-4c8e-9d2a-6f1e2b3c4d5e'' SALT_ROUNDS,
         rt_expires_at = 3605000, rt_created_at = 5001\<rparr>]\<rparr>"
  by (simp add: ticket_db_def requestPasswordReset_def createPasswordResetToken_def
      findUserByEmail_def storable_text_demo first_row_Cons demo_db_def alice_def
      select_user_def demo_request_env_def Let_def)

section \<open>Validation\<close>

lemma email_char_dot: "email_char CHR ''.''"
  by (simp add: email_char_def is_space_def)

lemma not_email_char_at: "\<not> email_char CHR ''@''"
  by (simp add: email_char_def)

text \<open>
  \<open>validateEmail\<close> is the match of the regular expression: a non-empty run of class
  characters, an \<open>@\<close>, a non-empty run of class characters, a dot, and a non-empty run
  of class characters, over the whole string.
\<close>

lemma validateEmail_regex:
  "validateEmail s \<longleftrightarrow>
     (\<exists>a b c. s = a @ ''@'' @ b @ ''.'' @ c \<and> a \<noteq> [] \<and> b \<noteq> [] \<and> c \<noteq> [] \<and>
        list_all email_char a \<and> list_all email_char b \<and> list_all email_char c)"
proof
  assume v: "validateEmail s"
  let ?a = "takeWhile email_char s"
  from v have a: "?a \<noteq> []"
    by (simp add: validateEmail_def)
  from v obtain domain where rest: "dropWhile email_char s = CHR ''@'' # domain"
    and dom: "list_all email_char domain" and dot: "CHR ''.'' \<in> set (butlast (tl domain))"
    by (auto simp: validateEmail_def split: list.splits)
  from dot obtain x t where domain: "domain = x # t" and "CHR ''.'' \<in> set (butlast t)"
    by (cases domain) auto
  then obtain u y where t: "t = u @ [y]" and "CHR ''.'' \<in> set u"
    by (cases t rule: rev_cases) auto
  then obtain u1 u2 where u: "u = u1 @ CHR ''.'' # u2"
    by (auto simp: in_set_conv_decomp)
  have "s = ?a @ dropWhile email_char s"
    by simp
  with rest domain t u have "s = ?a @ ''@'' @ (x # u1) @ ''.'' @ (u2 @ [y])"
    by simp
  moreover have "list_all email_char ?a"
    by (auto simp: list_all_iff dest: set_takeWhileD)
  moreover from dom domain t u have "list_all email_char (x # u1)" "list_all email_char (u2 @ [y])"
    by simp_all
  ultimately show "\<exists>a b c. s = a @ ''@'' @ b @ ''.'' @ c \<and> a \<noteq> [] \<and> b \<noteq> [] \<and> c \<noteq> [] \<and>
        list_all email_char a \<and> list_all email_char b \<and> list_all email_char c"
    using a by blast
next
  assume "\<exists>a b c. s = a @ ''@'' @ b @ ''.'' @ c \<and> a \<noteq> [] \<and> b \<noteq> [] \<and> c \<noteq> [] \<and>
        list_all email_char a \<and> list_all email_char b \<and> list_all email_char c"
  then obtain a b c where s: "s = a @ CHR ''@'' # b @ CHR ''.'' # c"
    and ne: "a \<noteq> []" "b \<noteq> []" "c \<noteq> []"
    and cls: "list_all email_char a" "list_all email_char b" "list_all email_char c"
    by auto
  from cls(1) have tw: "takeWhile email_char s = a"
    unfolding s by (simp add: takeWhile_tail not_email_char_at list_all_iff)
  from cls(1) have dw: "dropWhile email_char s = CHR ''@'' # b @ CHR ''.'' # c"
    unfolding s by (simp add: dropWhile_append3 not_email_char_at list_all_iff)
  from ne obtain b0 b' where b: "b = b0 # b'"
    by (cases b) auto
  from ne have "butlast (b' @ CHR ''.'' # c) = b' @ CHR ''.'' # butlast c"
    by (simp add: butlast_append)
  with b have "CHR ''.'' \<in> set (butlast (tl (b @ CHR ''.'' # c)))"
    by simp
  with tw dw ne cls show "validateEmail s"
    by (simp add: validateEmail_def email_char_dot)
qed

lemma bcrypt_compare_hash: "bcrypt_compare L data (bcrypt_hash L salt data rounds)"
  by (simp add: bcrypt_compare_def bcrypt_hash_def)

section \<open>Registration\<close>

text \<open>
  C5. When the email is well formed, the password has at least 8 characters, the email
  has at most 255 characters and the username at most 100, neither holds the code unit
  0, no account has the email or the username, and the keys that the store generates are
  fresh (the new user id is the id of no account and the user of no profile or
  preferences row; the new profile and preferences ids are unused), \<open>registerUser\<close>
  succeeds. The store gains one account with the bcrypt digest of the password, then one
  profile with level 1, experience 0, wins 0, losses 0 and no avatar, then one
  preferences row with notifications on, language \<open>en\<close> and theme \<open>light\<close>, and nothing
  else changes. The result is the created account as a \<open>User\<close>, a record with no
  password hash, with one access and one refresh token; each validates, at every clock
  reading before its expiry, to the id, email and username of the new account.
\<close>

theorem registerUser_success:
  "validateEmail (rr_email data) \<and> validatePassword (rr_password data) \<and>
   storable_text (rr_email data) \<and> length (rr_email data) \<le> 255 \<and>
   storable_text (rr_username data) \<and> length (rr_username data) \<le> 100 \<and>
   rr_email data \<notin> set (map u_email (users d)) \<and>
   rr_username data \<notin> set (map u_username (users d)) \<and>
   reg_user_id env \<notin> set (map u_id (users d)) \<and>
   reg_profile_id env \<notin> set (map up_id (user_profiles d)) \<and>
   reg_user_id env \<notin> set (map up_user_id (user_profiles d)) \<and>
   reg_preferences_id env \<notin> set (map pr_id (user_preferences d)) \<and>
   reg_user_id env \<notin> set (map pr_user_id (user_preferences d)) \<longrightarrow>
     registerUser L cfg env d data =
       (Inr \<lparr>ar_user =
               \<lparr>u_id = reg_user_id env, u_email = rr_email data, u_username = rr_username data,
                u_created_at = reg_user_now env, u_updated_at = reg_user_now env,
                u_is_active = True\<rparr>,
             ar_token = generateAccessToken L cfg (reg_access_clock env) (reg_user_id env)
               (rr_email data) (rr_username data),
             ar_refreshToken = generateRefreshToken L cfg (reg_refresh_clock env) (reg_user_id env)
               (rr_email data) (rr_username data)\<rparr>,
        d\<lparr>users := users d @
             [\<lparr>u_id = reg_user_id env, u_email = rr_email data, u_username = rr_username data,
               u_created_at = reg_user_now env, u_updated_at = reg_user_now env,
               u_is_active = True,
               u_password_hash = bcrypt_hash L (reg_salt env) (rr_password data) SALT_ROUNDS\<rparr>],
           user_profiles := user_profiles d @
             [\<lparr>up_id = reg_profile_id env, up_user_id = reg_user_id env, up_avatar_url = None,
               up_level = 1, up_experience = 0, up_stats_wins = 0, up_stats_losses = 0,
               up_created_at = reg_profile_now env, up_updated_at = reg_profile_now env\<rparr>],
           user_preferences := user_preferences d @
             [\<lparr>pr_id = reg_preferences_id env, pr_user_id = reg_user_id env,
               pr_notifications_enabled = True, pr_language = ''en'', pr_theme = ''light'',
               pr_created_at = reg_preferences_now env,
               pr_updated_at = reg_preferences_now env\<rparr>]\<rparr>) \<and>
     (clock < reg_access_clock env + JWT_EXPIRY cfg \<longrightarrow>
        validateToken L cfg clock
          (generateAccessToken L cfg (reg_access_clock env) (reg_user_id env)
             (rr_email data) (rr_username data)) =
          Inr \<lparr>vr_valid = True, vr_userId = Some (reg_user_id env),
               vr_email = Some (rr_email data), vr_username = Some (rr_username data)\<rparr>) \<and>
     (clock < reg_refresh_clock env + JWT_REFRESH_EXPIRY cfg \<longrightarrow>
        validateToken L cfg clock
          (generateRefreshToken L cfg (reg_refresh_clock env) (reg_user_id env)
             (rr_email data) (rr_username data)) =
          Inr \<lparr>vr_valid = True, vr_userId = Some (reg_user_id env),
               vr_email = Some (rr_email data), vr_username = Some (rr_username data)\<rparr>)"
proof (intro impI conjI)
  assume h: "validateEmail (rr_email data) \<and> validatePassword (rr_password data) \<and>
   storable_text (rr_email data) \<and> length (rr_email data) \<le> 255 \<and>
   storable_text (rr_username data) \<and> length (rr_username data) \<le> 100 \<and>
   rr_email data \<notin> set (map u_email (users d)) \<and>
   rr_username data \<notin> set (map u_username (users d)) \<and>
   reg_user_id env \<notin> set (map u_id (users d)) \<and>
   reg_profile_id env \<notin> set (map up_id (user_profiles d)) \<and>
   reg_user_id env \<notin> set (map up_user_id (user_profiles d)) \<and>
   reg_preferences_id env \<notin> set (map pr_id (user_preferences d)) \<and>
   reg_user_id env \<notin> set (map pr_user_id (user_preferences d))"
  then have lookups: "findUserByEmail d (rr_email data) = Inr None"
      "findUserByUsername d (rr_username data) = Inr None"
    by (simp_all add: findUserByEmail_free findUserByUsername_free)
  from h have columns: "varchar 255 (rr_email data) = Some (rr_email data)"
      "varchar 100 (rr_username data) = Some (rr_username data)"
    by (simp_all add: varchar_fits)
  from h lookups columns show "registerUser L cfg env d data =
       (Inr \<lparr>ar_user =
               \<lparr>u_id = reg_user_id env, u_email = rr_email data, u_username = rr_username data,
                u_created_at = reg_user_now env, u_updated_at = reg_user_now env,
                u_is_active = True\<rparr>,
             ar_token = generateAccessToken L cfg (reg_access_clock env) (reg_user_id env)
               (rr_email data) (rr_username data),
             ar_refreshToken = generateRefreshToken L cfg (reg_refresh_clock env) (reg_user_id env)
               (rr_email data) (rr_username data)\<rparr>,
        d\<lparr>users := users d @
             [\<lparr>u_id = reg_user_id env, u_email = rr_email data, u_username = rr_username data,
               u_created_at = reg_user_now env, u_updated_at = reg_user_now env,
               u_is_active = True,
               u_password_hash = bcrypt_hash L (reg_salt env) (rr_password data) SALT_ROUNDS\<rparr>],
           user_profiles := user_profiles d @
             [\<lparr>up_id = reg_profile_id env, up_user_id = reg_user_id env, up_avatar_url = None,
               up_level = 1, up_experience = 0, up_stats_wins = 0, up_stats_losses = 0,
               up_created_at = reg_profile_now env, up_updated_at = reg_profile_now env\<rparr>],
           user_preferences := user_preferences d @
             [\<lparr>pr_id = reg_preferences_id env, pr_user_id = reg_user_id env,
               pr_notifications_enabled = True, pr_language = ''en'', pr_theme = ''light'',
               pr_created_at = reg_preferences_now env,
               pr_updated_at = reg_preferences_now env\<rparr>]\<rparr>)"
    by (simp add: registerUser_def createUser_def createUserProfile_def
        createUserPreferences_def select_user_def Let_def)
qed (simp_all add: validateToken_Jws generateAccessToken_Jws generateRefreshToken_Jws)

theorem registerUser_success_witness:
  "registerUser demo_lib default_config demo_register_env demo_db
     \<lparr>rr_email = ''bob@example.com'', rr_password = ''password123'', rr_username = ''bob''\<rparr> =
     (Inr \<lparr>ar_user =
             \<lparr>u_id = Uuid 11, u_email = ''bob@example.com'', u_username = ''bob'',
              u_created_at = 2000, u_updated_at = 2000, u_is_active = True\<rparr>,
           ar_token = generateAccessToken demo_lib default_config 2 (Uuid 11)
             ''bob@example.com'' ''bob'',
           ar_refreshToken = generateRefreshToken demo_lib default_config 3 (Uuid 11)
             ''bob@example.com'' ''bob''\<rparr>,
      \<lparr>users =
         [alice,
          \<lparr>u_id = Uuid 11, u_email = ''bob@example.com'', u_username = ''bob'',
           u_created_at = 2000, u_updated_at = 2000, u_is_active = True,
           u_password_hash = bcrypt_hash demo_lib ''salt-2'' ''password123'' 10\<rparr>],
       user_profiles =
         [alice_profile,
          \<lparr>up_id = Uuid 12, up_user_id = Uuid 11, up_avatar_url = None, up_level = 1,
           up_experience = 0, up_stats_wins = 0, up_stats_losses = 0,
           up_created_at = 2001, up_updated_at = 2001\<rparr>],
       user_preferences =
         [alice_preferences,
          \<lparr>pr_id = Uuid 13, pr_user_id = Uuid 11, pr_notifications_enabled = True,
           pr_language = ''en'', pr_theme = ''light'', pr_created_at = 2002,
           pr_updated_at = 2002\<rparr>],
       password_reset_tokens = []\<rparr>) \<and>
   validateToken demo_lib default_config 86401
     (generateAccessToken demo_lib default_config 2 (Uuid 11) ''bob@example.com'' ''bob'') =
     Inr \<lparr>vr_valid = True, vr_userId = Some (Uuid 11), vr_email = Some ''bob@example.com'',
          vr_username = Some ''bob''\<rparr> \<and>
   validateToken demo_lib default_config 86401
     (generateRefreshToken demo_lib default_config 3 (Uuid 11) ''bob@example.com'' ''bob'') =
     Inr \<lparr>vr_valid = True, vr_userId = Some (Uuid 11), vr_email = Some ''bob@example.com'',
          vr_username = Some ''bob''\<rparr>"
proof -
  have free: "''bob@example.com'' \<notin> set (map u_email (users demo_db))"
    "''bob'' \<notin> set (map u_username (users demo_db))"
    by (simp_all add: demo_db_columns)
  have columns: "length ''bob@example.com'' \<le> 255" "length ''bob'' \<le> 100"
    by simp_all
  have fresh: "Uuid 11 \<notin> set (map u_id (users demo_db))"
    "Uuid 12 \<notin> set (map up_id (user_profiles demo_db))"
    "Uuid 11 \<notin> set (map up_user_id (user_profiles demo_db))"
    "Uuid 13 \<notin> set (map pr_id (user_preferences demo_db))"
    "Uuid 11 \<notin> set (map pr_user_id (user_preferences demo_db))"
    by (simp_all add: demo_db_def alice_def alice_profile_def alice_preferences_def)
  have live: "(86401::int) < 2 + JWT_EXPIRY default_config"
    "(86401::int) < 3 + JWT_REFRESH_EXPIRY default_config"
    by (simp_all add: default_config_def)
  show ?thesis
    using free columns fresh live validateEmail_bob validatePassword_simps(1)
      storable_text_demo(2,5)
      registerUser_success [where L = demo_lib and cfg = default_config
        and env = demo_register_env and d = demo_db and clock = 86401 and data =
        "\<lparr>rr_email = ''bob@example.com'', rr_password = ''password123'', rr_username = ''bob''\<rparr>"]
    by (simp add: demo_register_env_def demo_db_def SALT_ROUNDS_def)
qed

text \<open>
  C5, as first stated, asks only for a well-formed email, a password of at least 8
  characters and an email and a username that no account has. A username of 101
  characters meets all of that, with fresh keys, and does not fit the column
  \<open>username VARCHAR(100)\<close>: the INSERT of \<open>createUser\<close> is rejected, the call fails with
  \<open>DATABASE_ERROR\<close> and nothing is created.
\<close>

theorem registerUser_long_username:
  "validateEmail ''bob@example.com'' \<and> validatePassword ''password123'' \<and>
   ''bob@example.com'' \<notin> set (map u_email (users demo_db)) \<and>
   long_username \<notin> set (map u_username (users demo_db)) \<and>
   length long_username = 101 \<and>
   reg_user_id demo_register_env \<notin> set (map u_id (users demo_db)) \<and>
   registerUser demo_lib default_config demo_register_env demo_db
     \<lparr>rr_email = ''bob@example.com'', rr_password = ''password123'',
      rr_username = long_username\<rparr> =
     (Inl (ServiceError DATABASE_ERROR ''Database operation failed'' 500), demo_db)"
proof -
  have name_free: "long_username \<notin> set (map u_username (users demo_db))"
  proof
    assume "long_username \<in> set (map u_username (users demo_db))"
    then have "length long_username = length ''alice''"
      by (simp add: demo_db_columns)
    then show False
      by (simp add: length_long_username)
  qed
  have email_free: "''bob@example.com'' \<notin> set (map u_email (users demo_db))"
    by (simp add: demo_db_columns)
  have too_long: "varchar 100 long_username = None"
    by (simp add: varchar_def long_username_def)
  have fits: "varchar 255 ''bob@example.com'' = Some ''bob@example.com''"
    by (simp add: varchar_def storable_text_def)
  have key: "reg_user_id demo_register_env \<notin> set (map u_id (users demo_db))"
    by (simp add: demo_register_env_def demo_db_columns)
  have "registerUser demo_lib default_config demo_register_env demo_db
     \<lparr>rr_email = ''bob@example.com'', rr_password = ''password123'',
      rr_username = long_username\<rparr> = (Inl query_error, demo_db)"
    using too_long fits validateEmail_bob validatePassword_simps(1)
      findUserByEmail_free [OF storable_text_demo(2) email_free]
      findUserByUsername_free [OF storable_text_demo(7) name_free]
    by (simp add: registerUser_def createUser_def Let_def)
  with name_free email_free key validateEmail_bob validatePassword_simps(1) show ?thesis
    by (simp add: query_error_def length_long_username)
qed

text \<open>
  C8. With a well-formed email and a password of at least 8 characters, \<open>registerUser\<close>
  fails with \<open>EMAIL_TAKEN\<close> as soon as an account has the email, whatever the username;
  when the email is free and holds no code unit 0, and an account has the username, it
  fails with \<open>USERNAME_TAKEN\<close>. The two validation checks come before any access to the
  store: an ill-formed email gives \<open>INVALID_EMAIL\<close>, and a short password with a
  well-formed email gives \<open>WEAK_PASSWORD\<close>, with the store unchanged and the same outcome
  on every store. (The emails and usernames of accounts are texts that the store has
  taken: they hold no code unit 0.)
\<close>

theorem registerUser_check_order:
  "(validateEmail (rr_email data) \<and> validatePassword (rr_password data) \<and>
    storable_text (rr_email data) \<and> rr_email data \<in> set (map u_email (users d)) \<longrightarrow>
      registerUser L cfg env d data =
        (Inl (ServiceError EMAIL_TAKEN ''Email is already registered'' 409), d)) \<and>
   (validateEmail (rr_email data) \<and> validatePassword (rr_password data) \<and>
    storable_text (rr_email data) \<and> rr_email data \<notin> set (map u_email (users d)) \<and>
    storable_text (rr_username data) \<and> rr_username data \<in> set (map u_username (users d)) \<longrightarrow>
      registerUser L cfg env d data =
        (Inl (ServiceError USERNAME_TAKEN ''Username is already taken'' 409), d)) \<and>
   (\<not> validateEmail (rr_email data) \<longrightarrow>
      registerUser L cfg env d data =
        (Inl (ServiceError INVALID_EMAIL ''Invalid email format'' 400), d) \<and>
      fst (registerUser L cfg env d' data) = fst (registerUser L cfg env d data)) \<and>
   (validateEmail (rr_email data) \<and> \<not> validatePassword (rr_password data) \<longrightarrow>
      registerUser L cfg env d data =
        (Inl (ServiceError WEAK_PASSWORD ''Password must be at least 8 characters long'' 400), d) \<and>
      fst (registerUser L cfg env d' data) = fst (registerUser L cfg env d data))"
proof (intro conjI impI)
  assume h: "validateEmail (rr_email data) \<and> validatePassword (rr_password data) \<and>
    storable_text (rr_email data) \<and> rr_email data \<in> set (map u_email (users d))"
  then obtain user where "findUserByEmail d (rr_email data) = Inr (Some user)"
    using findUserByEmail_taken by blast
  with h show "registerUser L cfg env d data =
        (Inl (ServiceError EMAIL_TAKEN ''Email is already registered'' 409), d)"
    by (simp add: registerUser_def)
next
  assume h: "validateEmail (rr_email data) \<and> validatePassword (rr_password data) \<and>
    storable_text (rr_email data) \<and> rr_email data \<notin> set (map u_email (users d)) \<and>
    storable_text (rr_username data) \<and> rr_username data \<in> set (map u_username (users d))"
  then obtain user where "findUserByUsername d (rr_username data) = Inr (Some user)"
    using findUserByUsername_taken by blast
  moreover from h have "findUserByEmail d (rr_email data) = Inr None"
    by (simp add: findUserByEmail_free)
  ultimately show "registerUser L cfg env d data =
        (Inl (ServiceError USERNAME_TAKEN ''Username is already taken'' 409), d)"
    using h by (simp add: registerUser_def)
qed (simp_all add: registerUser_def)

theorem registerUser_check_order_witness:
  "registerUser demo_lib default_config demo_register_env demo_db
     \<lparr>rr_email = ''alice@example.com'', rr_password = ''password123'', rr_username = ''alice''\<rparr> =
     (Inl (ServiceError EMAIL_TAKEN ''Email is already registered'' 409), demo_db) \<and>
   registerUser demo_lib default_config demo_register_env demo_db
     \<lparr>rr_email = ''bob@example.com'', rr_password = ''password123'', rr_username = ''alice''\<rparr> =
     (Inl (ServiceError USERNAME_TAKEN ''Username is already taken'' 409), demo_db) \<and>
   registerUser demo_lib default_config demo_register_env demo_db
     \<lparr>rr_email = ''invalid-email'', rr_password = ''password123'', rr_username = ''alice''\<rparr> =
     (Inl (ServiceError INVALID_EMAIL ''Invalid email format'' 400), demo_db) \<and>
   fst (registerUser demo_lib default_config demo_register_env empty_db
     \<lparr>rr_email = ''invalid-email'', rr_password = ''password123'', rr_username = ''alice''\<rparr>) =
     Inl (ServiceError INVALID_EMAIL ''Invalid email format'' 400) \<and>
   registerUser demo_lib default_config demo_register_env demo_db
     \<lparr>rr_email = ''alice@example.com'', rr_password = ''weak'', rr_username = ''alice''\<rparr> =
     (Inl (ServiceError WEAK_PASSWORD ''Password must be at least 8 characters long'' 400), demo_db) \<and>
   fst (registerUser demo_lib default_config demo_register_env empty_db
     \<lparr>rr_email = ''alice@example.com'', rr_password = ''weak'', rr_username = ''alice''\<rparr>) =
     Inl (ServiceError WEAK_PASSWORD ''Password must be at least 8 characters long'' 400)"
proof -
  have email_taken: "''alice@example.com'' \<in> set (map u_email (users demo_db))"
    and email_free: "''bob@example.com'' \<notin> set (map u_email (users demo_db))"
    and name_taken: "''alice'' \<in> set (map u_username (users demo_db))"
    by (simp_all add: demo_db_columns)
  note facts = email_taken email_free name_taken validateEmail_alice validateEmail_bob
    not_validateEmail_invalid validatePassword_simps storable_text_demo(1,2,4)
  show ?thesis
    using facts
      registerUser_check_order [where L = demo_lib and cfg = default_config
        and env = demo_register_env and d = demo_db and d' = empty_db and data =
        "\<lparr>rr_email = ''alice@example.com'', rr_password = ''password123'', rr_username = ''alice''\<rparr>"]
      registerUser_check_order [where L = demo_lib and cfg = default_config
        and env = demo_register_env and d = demo_db and d' = empty_db and data =
        "\<lparr>rr_email = ''bob@example.com'', rr_password = ''password123'', rr_username = ''alice''\<rparr>"]
      registerUser_check_order [where L = demo_lib and cfg = default_config
        and env = demo_register_env and d = demo_db and d' = empty_db and data =
        "\<lparr>rr_email = ''invalid-email'', rr_password = ''password123'', rr_username = ''alice''\<rparr>"]
      registerUser_check_order [where L = demo_lib and cfg = default_config
        and env = demo_register_env and d = demo_db and d' = empty_db and data =
        "\<lparr>rr_email = ''alice@example.com'', rr_password = ''weak'', rr_username = ''alice''\<rparr>"]
    by simp
qed

text \<open>
  C8, as first stated, has \<open>USERNAME_TAKEN\<close> for every well-formed email that is free
  when the username is taken. A well-formed email with the code unit 0 in it is the email
  of no account, and the lookup by email that comes first is rejected by the store: with
  the username of an account, the call fails with \<open>DATABASE_ERROR\<close>.
\<close>

theorem registerUser_unstorable_email:
  "validateEmail nul_email \<and> validatePassword ''password123'' \<and>
   nul_email \<notin> set (map u_email (users demo_db)) \<and>
   ''alice'' \<in> set (map u_username (users demo_db)) \<and>
   registerUser demo_lib default_config demo_register_env demo_db
     \<lparr>rr_email = nul_email, rr_password = ''password123'', rr_username = ''alice''\<rparr> =
     (Inl (ServiceError DATABASE_ERROR ''Database operation failed'' 500), demo_db)"
proof -
  have "nul_email \<notin> set (map u_email (users demo_db))"
    by (simp add: demo_db_columns nul_email_def)
  moreover have "registerUser demo_lib default_config demo_register_env demo_db
     \<lparr>rr_email = nul_email, rr_password = ''password123'', rr_username = ''alice''\<rparr> =
     (Inl query_error, demo_db)"
    using validateEmail_nul validatePassword_simps(1)
      findUserByEmail_unstorable [OF storable_text_demo(6)]
    by (simp add: registerUser_def)
  ultimately show ?thesis
    using validateEmail_nul validatePassword_simps(1)
    by (simp add: query_error_def demo_db_columns)
qed

section \<open>Login\<close>

text \<open>
  C6. For well-formed emails, \<open>loginUser\<close> fails in the same way when no account has the
  email, the email holding no code unit 0, and when the account exists and the password
  does not match its hash: both calls return the same error, with the same code
  \<open>INVALID_CREDENTIALS\<close>, the same message and the same status.
\<close>

theorem loginUser_failure_uniform:
  "validateEmail (lr_email data) \<and> storable_text (lr_email data) \<and>
   lr_email data \<notin> set (map u_email (users d)) \<and>
   validateEmail (lr_email data') \<and> findUserWithPassword d' (lr_email data') = Inr (Some row) \<and>
   \<not> bcrypt_compare L (lr_password data') (u_password_hash row) \<longrightarrow>
     loginUser L cfg access_clock refresh_clock d data =
       Inl (ServiceError INVALID_CREDENTIALS ''Invalid email or password'' 401) \<and>
     loginUser L cfg access_clock' refresh_clock' d' data' =
       Inl (ServiceError INVALID_CREDENTIALS ''Invalid email or password'' 401)"
  by (simp add: loginUser_def findUserWithPassword_free)

theorem loginUser_failure_uniform_witness:
  "loginUser demo_lib default_config 100 101 demo_db
     \<lparr>lr_email = ''nonexistent@example.com'', lr_password = ''password123''\<rparr> =
     Inl (ServiceError INVALID_CREDENTIALS ''Invalid email or password'' 401) \<and>
   loginUser demo_lib default_config 100 101 demo_db
     \<lparr>lr_email = ''alice@example.com'', lr_password = ''wrongpassword''\<rparr> =
     Inl (ServiceError INVALID_CREDENTIALS ''Invalid email or password'' 401)"
proof -
  have absent: "''nonexistent@example.com'' \<notin> set (map u_email (users demo_db))"
    by (simp add: demo_db_columns)
  have present: "findUserWithPassword demo_db ''alice@example.com'' = Inr (Some alice)"
    by (simp add: findUserWithPassword_def storable_text_demo demo_db_def alice_def
        first_row_Cons)
  have mismatch: "\<not> bcrypt_compare demo_lib ''wrongpassword'' (u_password_hash alice)"
    by (simp add: bcrypt_compare_def bcrypt_hash_def alice_def demo_lib_def)
  show ?thesis
    using absent present mismatch validateEmail_alice validateEmail_nobody
      storable_text_demo(3)
      loginUser_failure_uniform [where L = demo_lib and cfg = default_config
        and d = demo_db and d' = demo_db and row = alice
        and data = "\<lparr>lr_email = ''nonexistent@example.com'', lr_password = ''password123''\<rparr>"
        and data' = "\<lparr>lr_email = ''alice@example.com'', lr_password = ''wrongpassword''\<rparr>"
        and access_clock = 100 and refresh_clock = 101
        and access_clock' = 100 and refresh_clock' = 101]
    by simp
qed

text \<open>
  C6, as first stated, is about every well-formed email. A well-formed email with the
  code unit 0 in it is the email of no account, and the lookup is rejected by the store:
  \<open>loginUser\<close> fails with \<open>DATABASE_ERROR\<close> and the status 500, which is not the
  \<open>INVALID_CREDENTIALS\<close> that a wrong password gets.
\<close>

theorem loginUser_unstorable_email:
  "validateEmail nul_email \<and> nul_email \<notin> set (map u_email (users demo_db)) \<and>
   loginUser demo_lib default_config 100 101 demo_db
     \<lparr>lr_email = nul_email, lr_password = ''password123''\<rparr> =
     Inl (ServiceError DATABASE_ERROR ''Database operation failed'' 500) \<and>
   loginUser demo_lib default_config 100 101 demo_db
     \<lparr>lr_email = ''alice@example.com'', lr_password = ''wrongpassword''\<rparr> =
     Inl (ServiceError INVALID_CREDENTIALS ''Invalid email or password'' 401)"
proof -
  have absent: "nul_email \<notin> set (map u_email (users demo_db))"
    by (simp add: demo_db_columns nul_email_def)
  have rejected: "findUserWithPassword demo_db nul_email = Inl query_error"
    by (simp add: findUserWithPassword_def storable_text_demo)
  have present: "findUserWithPassword demo_db ''alice@example.com'' = Inr (Some alice)"
    by (simp add: findUserWithPassword_def storable_text_demo demo_db_def alice_def
        first_row_Cons)
  have mismatch: "\<not> bcrypt_compare demo_lib ''wrongpassword'' (u_password_hash alice)"
    by (simp add: bcrypt_compare_def bcrypt_hash_def alice_def demo_lib_def)
  show ?thesis
    using absent rejected present mismatch validateEmail_nul validateEmail_alice
    by (simp add: loginUser_def query_error_def)
qed

section \<open>Refresh\<close>

text \<open>
  C2. The claim is that \<open>refreshAccessToken\<close> fails with \<open>INVALID_TOKEN\<close> on every token
  that does not verify, an expired one included. On a refresh token that the service
  issued, presented at its expiry or any time later, the call fails with
  \<open>EXPIRED_TOKEN\<close>: \<open>validateToken\<close> throws, and the test of \<open>validation.valid\<close> that
  would answer \<open>INVALID_TOKEN\<close> is never reached.
\<close>

theorem refreshAccessToken_expired:
  "refreshAccessToken L cfg (issued + JWT_REFRESH_EXPIRY cfg + int n) sign_clock d
     (generateRefreshToken L cfg issued userId email username) =
   Inl (ServiceError EXPIRED_TOKEN ''Token has expired'' 401)"
  by (simp add: refreshAccessToken_def validateToken_Jws generateRefreshToken_Jws)

text \<open>
  C3. \<open>refreshAccessToken\<close> does not look at the type of the token. For every token
  that is correctly signed and not expired, of either type, and whose user id is the id
  of an account, the call succeeds with a new access token for the id, email and
  username of that account; so it does on an access token issued by
  \<open>generateAccessToken\<close>.
\<close>

theorem refreshAccessToken_any_type:
  "(sig = jwt_signature L (JWT_SECRET cfg) claims \<and> verify_clock < jwt_exp claims \<and>
    findUserById d (tp_userId claims) = Some user \<longrightarrow>
      refreshAccessToken L cfg verify_clock sign_clock d (Jws claims sig) =
        Inr (generateAccessToken L cfg sign_clock (u_id user) (u_email user) (u_username user))) \<and>
   (verify_clock < issued + JWT_EXPIRY cfg \<and> findUserById d userId = Some user \<longrightarrow>
      refreshAccessToken L cfg verify_clock sign_clock d
        (generateAccessToken L cfg issued userId email username) =
        Inr (generateAccessToken L cfg sign_clock userId (u_email user) (u_username user)))"
proof -
  have "u_id user = userId" if "findUserById d userId = Some user"
    using that by (rule findUserById_Some)
  then show ?thesis
    by (simp add: refreshAccessToken_def validateToken_Jws generateAccessToken_Jws)
qed

theorem refreshAccessToken_any_type_witness:
  "refreshAccessToken demo_lib default_config 100 101 demo_db
     (Jws \<lparr>tp_userId = Uuid 1, tp_email = ''alice@example.com'', tp_username = ''alice'',
           tp_type = access, jwt_iat = 50, jwt_exp = 86450\<rparr>
        (jwt_signature demo_lib (JWT_SECRET default_config)
           \<lparr>tp_userId = Uuid 1, tp_email = ''alice@example.com'', tp_username = ''alice'',
            tp_type = access, jwt_iat = 50, jwt_exp = 86450\<rparr>)) =
     Inr (generateAccessToken demo_lib default_config 101 (Uuid 1) ''alice@example.com'' ''alice'') \<and>
   refreshAccessToken demo_lib default_config 100 101 demo_db
     (generateAccessToken demo_lib default_config 50 (Uuid 1) ''alice@example.com'' ''alice'') =
     Inr (generateAccessToken demo_lib default_config 101 (Uuid 1) ''alice@example.com'' ''alice'')"
proof -
  let ?claims = "\<lparr>tp_userId = Uuid 1, tp_email = ''alice@example.com'', tp_username = ''alice'',
           tp_type = access, jwt_iat = 50, jwt_exp = 86450\<rparr>"
  have user: "findUserById demo_db (tp_userId ?claims) = Some (select_user alice)"
    using findUserById_demo by simp
  have fields: "u_id (select_user alice) = Uuid 1"
    "u_email (select_user alice) = ''alice@example.com''"
    "u_username (select_user alice) = ''alice''"
    by (simp_all add: select_user_def alice_def)
  have live: "(100::int) < jwt_exp ?claims" "(100::int) < 50 + JWT_EXPIRY default_config"
    by (simp_all add: default_config_def)
  show ?thesis
    using user live fields findUserById_demo
      refreshAccessToken_any_type [where L = demo_lib and cfg = default_config
        and claims = ?claims and sig = "jwt_signature demo_lib (JWT_SECRET default_config) ?claims"
        and verify_clock = 100 and sign_clock = 101 and d = demo_db
        and user = "select_user alice" and issued = 50 and userId = "Uuid 1"
        and email = "''alice@example.com''" and username = "''alice''"]
    by simp
qed

section \<open>Password reset\<close>

text \<open>
  C9. \<open>requestPasswordReset\<close> returns the same message for an email that has an account
  and for an email that has none and holds no code unit 0. In the first case (the
  generated ticket id being unused) the store gains one ticket, for that account, which
  holds the bcrypt digest of the generated secret and not the secret, and expires one
  hour (3600000 milliseconds) after \<open>Date.now()\<close>; in the second case the store is
  unchanged.
\<close>

theorem requestPasswordReset_uniform:
  "findUserByEmail d (prq_email data) = Inr (Some user) \<and>
   rq_ticket_id env \<notin> set (map rt_id (password_reset_tokens d)) \<and>
   storable_text (prq_email data') \<and> prq_email data' \<notin> set (map u_email (users d')) \<longrightarrow>
     requestPasswordReset L env d data =
       (Inr ''If the email exists, a password reset link has been sent'',
        d\<lparr>password_reset_tokens := password_reset_tokens d @
             [\<lparr>rt_id = rq_ticket_id env, rt_user_id = u_id user,
               rt_token_hash = bcrypt_hash L (rq_salt env) (rq_uuid env) SALT_ROUNDS,
               rt_expires_at = rq_date_now env + 60 * 60 * 1000,
               rt_created_at = rq_insert_now env\<rparr>]\<rparr>) \<and>
     requestPasswordReset L env' d' data' =
       (Inr ''If the email exists, a password reset link has been sent'', d')"
proof (intro impI)
  assume h: "findUserByEmail d (prq_email data) = Inr (Some user) \<and>
   rq_ticket_id env \<notin> set (map rt_id (password_reset_tokens d)) \<and>
   storable_text (prq_email data') \<and> prq_email data' \<notin> set (map u_email (users d'))"
  then have "u_id user \<in> set (map u_id (users d))"
    using findUserByEmail_Some(2) by blast
  moreover from h have "findUserByEmail d' (prq_email data') = Inr None"
    by (simp add: findUserByEmail_free)
  ultimately show "requestPasswordReset L env d data =
       (Inr ''If the email exists, a password reset link has been sent'',
        d\<lparr>password_reset_tokens := password_reset_tokens d @
             [\<lparr>rt_id = rq_ticket_id env, rt_user_id = u_id user,
               rt_token_hash = bcrypt_hash L (rq_salt env) (rq_uuid env) SALT_ROUNDS,
               rt_expires_at = rq_date_now env + 60 * 60 * 1000,
               rt_created_at = rq_insert_now env\<rparr>]\<rparr>) \<and>
     requestPasswordReset L env' d' data' =
       (Inr ''If the email exists, a password reset link has been sent'', d')"
    using h by (simp add: requestPasswordReset_def createPasswordResetToken_def Let_def)
qed

theorem requestPasswordReset_uniform_witness:
  "requestPasswordReset demo_lib demo_request_env demo_db \<lparr>prq_email = ''alice@example.com''\<rparr> =
     (Inr ''If the email exists, a password reset link has been sent'',
      demo_db\<lparr>password_reset_tokens :=
          [\<lparr>rt_id = Uuid 4, rt_user_id = Uuid 1,
            rt_token_hash =
              \<lparr>d_salt = ''salt-A'', d_rounds = 10,
               d_hash = ''salt-A$0b0e7a1c-5f43-4c8e-9d2a-6f1e2b3c4d5e''\<rparr>,
            rt_expires_at = 3605000, rt_created_at = 5001\<rparr>]\<rparr>) \<and>
   requestPasswordReset demo_lib demo_request_env demo_db
     \<lparr>prq_email = ''nonexistent@example.com''\<rparr> =
     (Inr ''If the email exists, a password reset link has been sent'', demo_db)"
proof -
  have present: "findUserByEmail demo_db ''alice@example.com'' = Inr (Some (select_user alice))"
    by (simp add: findUserByEmail_def storable_text_demo demo_db_def alice_def first_row_Cons)
  have absent: "''nonexistent@example.com'' \<notin> set (map u_email (users demo_db))"
    by (simp add: demo_db_columns)
  have fresh: "Uuid 4 \<notin> set (map rt_id (password_reset_tokens demo_db))"
    by (simp add: demo_db_def)
  show ?thesis
    using present absent fresh storable_text_demo(3)
      requestPasswordReset_uniform [where L = demo_lib and env = demo_request_env
        and env' = demo_request_env and d = demo_db and d' = demo_db
        and user = "select_user alice"
        and data = "\<lparr>prq_email = ''alice@example.com''\<rparr>"
        and data' = "\<lparr>prq_email = ''nonexistent@example.com''\<rparr>"]
    by (simp add: demo_request_env_def demo_db_def select_user_def alice_def bcrypt_hash_def
        demo_lib_def SALT_ROUNDS_def)
qed

text \<open>
  C9, as first stated, is about every email that has no account. An email with the code
  unit 0 in it has none, and the lookup is rejected by the store: \<open>requestPasswordReset\<close>
  fails with \<open>DATABASE_ERROR\<close>, where the email of an account gets the message.
\<close>

theorem requestPasswordReset_unstorable_email:
  "nul_email \<notin> set (map u_email (users demo_db)) \<and>
   requestPasswordReset demo_lib demo_request_env demo_db \<lparr>prq_email = nul_email\<rparr> =
     (Inl (ServiceError DATABASE_ERROR ''Database operation failed'' 500), demo_db) \<and>
   fst (requestPasswordReset demo_lib demo_request_env demo_db
          \<lparr>prq_email = ''alice@example.com''\<rparr>) =
     Inr ''If the email exists, a password reset link has been sent''"
proof -
  have absent: "nul_email \<notin> set (map u_email (users demo_db))"
    by (simp add: demo_db_columns nul_email_def)
  have rejected: "findUserByEmail demo_db nul_email = Inl query_error"
    by (simp add: findUserByEmail_def storable_text_demo)
  have present: "findUserByEmail demo_db ''alice@example.com'' = Inr (Some (select_user alice))"
    by (simp add: findUserByEmail_def storable_text_demo demo_db_def alice_def first_row_Cons)
  show ?thesis
    using absent rejected present
    by (simp add: requestPasswordReset_def createPasswordResetToken_def query_error_def
        demo_request_env_def demo_db_def select_user_def alice_def Let_def)
qed


text \<open>
  C1. The claim is that \<open>resetPassword\<close> succeeds on the secret of a ticket that is not
  expired. The store \<open>ticket_db L\<close> holds one ticket, made by \<open>requestPasswordReset\<close> from
  the secret with the salt \<open>salt-A\<close> and valid until 3605000. \<open>resetPassword\<close> at 6000,
  with that secret and a new password of 14 characters, hashes the secret again;
  \<open>bcrypt.hash\<close> then draws a salt of its own, here \<open>salt-B\<close>, and the digest it returns
  is not the digest stored, whatever the key derivation: no ticket is found, the call
  fails with \<open>INVALID_RESET_TOKEN\<close> and the store is unchanged.
\<close>

theorem resetPassword_fresh_salt:
  "password_reset_tokens (ticket_db L) =
     [\<lparr>rt_id = Uuid 4, rt_user_id = Uuid 1,
       rt_token_hash =
         bcrypt_hash L ''salt-A'' ''0b0e7a1c-5f43-4c8e-9d2a-6f1e2b3c4d5e'' SALT_ROUNDS,
       rt_expires_at = 3605000, rt_created_at = 5001\<rparr>] \<and>
   resetPassword L (demo_confirm_env\<lparr>rc_token_salt := ''salt-B''\<rparr>) (ticket_db L) demo_confirm =
     (Inl (ServiceError INVALID_RESET_TOKEN ''Invalid or expired reset token'' 400), ticket_db L)"
  by (simp add: resetPassword_def ticket_db_eq demo_confirm_env_def demo_confirm_def
      validatePassword_new findPasswordResetToken_def first_row_Nil bcrypt_hash_def Let_def)







section \<open>Profile and preferences\<close>

lemma first_row_filter_Some:
  "first_row (filter P xs) = Some x \<Longrightarrow> \<exists>rest. filter P xs = x # rest"
  by (cases "filter P xs") (simp_all add: first_row_Nil first_row_Cons)

lemma updateUserProfile_spec:
  assumes "profile_update_fits updates"
  shows "updateUserProfile d now userId updates =
     (case filter (\<lambda>r. up_user_id r = userId) (user_profiles d) of
        [] \<Rightarrow> Inl (ServiceError USER_NOT_FOUND ''User profile not found'' 404)
      | r # rest \<Rightarrow>
          Inr (spec_profile_update now updates r,
               d\<lparr>user_profiles :=
                   map (\<lambda>r. if up_user_id r = userId then spec_profile_update now updates r else r)
                     (user_profiles d)\<rparr>))"
  apply (insert assms)
  apply (cases "upq_avatar_url updates"; cases "upq_level updates"; cases "upq_experience updates";
      cases "upq_stats_wins updates"; cases "upq_stats_losses updates")
  apply (simp_all add: updateUserProfile_def push_field_def update_where_user_id_def eval_expr_def
      param_def spec_profile_update_def profile_update_fits_def varchar_def Let_def
      split: list.split)
  done

lemma updateUserPreferences_spec:
  assumes "preferences_update_fits updates"
  shows "updateUserPreferences d now userId updates =
     (case filter (\<lambda>r. pr_user_id r = userId) (user_preferences d) of
        [] \<Rightarrow> Inl (ServiceError USER_NOT_FOUND ''User preferences not found'' 404)
      | r # rest \<Rightarrow>
          Inr (spec_preferences_update now updates r,
               d\<lparr>user_preferences :=
                   map (\<lambda>r. if pr_user_id r = userId then spec_preferences_update now updates r
                            else r)
                     (user_preferences d)\<rparr>))"
  apply (insert assms)
  apply (cases "ufq_notifications_enabled updates"; cases "ufq_language updates";
      cases "ufq_theme updates")
  apply (simp_all add: updateUserPreferences_def push_field_def update_where_user_id_def
      eval_expr_def param_def spec_preferences_update_def preferences_update_fits_def
      varchar_def Let_def split: list.split)
  done

lemma updateProfile_success:
  assumes "profile_update_fits updates" and "findUserById d userId = Some user" and "findUserProfile d userId = Some profile"
    and "findUserPreferences d userId = Some preferences"
  shows "updateProfile d now userId updates =
       (Inr \<lparr>uwp_user = user, uwp_profile = spec_profile_update now updates profile,
             uwp_preferences = preferences\<rparr>,
        d\<lparr>user_profiles :=
            map (\<lambda>r. if up_user_id r = userId then spec_profile_update now updates r else r)
              (user_profiles d)\<rparr>)"
proof -
  from assms(3) obtain rest where "filter (\<lambda>r. up_user_id r = userId) (user_profiles d) = profile # rest"
    unfolding findUserProfile_def using first_row_filter_Some by fastforce
  moreover have "findUserPreferences (d\<lparr>user_profiles := t\<rparr>) userId = findUserPreferences d userId" for t
    by (simp add: findUserPreferences_def)
  ultimately show ?thesis
    using assms(1,2,4) by (simp add: updateProfile_def updateUserProfile_spec)
qed

lemma updatePreferences_success:
  assumes "preferences_update_fits updates" and "findUserById d userId = Some user" and "findUserProfile d userId = Some profile"
    and "findUserPreferences d userId = Some preferences"
  shows "updatePreferences d now userId updates =
       (Inr \<lparr>uwp_user = user, uwp_profile = profile,
             uwp_preferences = spec_preferences_update now updates preferences\<rparr>,
        d\<lparr>user_preferences :=
            map (\<lambda>r. if pr_user_id r = userId then spec_preferences_update now updates r else r)
              (user_preferences d)\<rparr>)"
proof -
  from assms(4) obtain rest where
    "filter (\<lambda>r. pr_user_id r = userId) (user_preferences d) = preferences # rest"
    unfolding findUserPreferences_def using first_row_filter_Some by fastforce
  moreover have "findUserProfile (d\<lparr>user_preferences := t\<rparr>) userId = findUserProfile d userId" for t
    by (simp add: findUserProfile_def)
  ultimately show ?thesis
    using assms(1,2,3) by (simp add: updatePreferences_def updateUserPreferences_spec)
qed

lemma fails_with_Inl: "fails_with c (Inl e) = (code e = c)"
  by (simp add: fails_with_def)

lemma code_ServiceError: "code (ServiceError c m s) = c"
  by (simp add: ServiceError_def)

lemma getUserWithProfile_missing:
  assumes "findUserById d userId = None \<or> findUserProfile d userId = None \<or>
    findUserPreferences d userId = None"
  shows "fails_with USER_NOT_FOUND (getUserWithProfile d userId)"
  using assms
  by (auto simp: getUserWithProfile_def fails_with_Inl code_ServiceError split: option.splits)

lemma updateProfile_no_account:
  "findUserById d userId = None \<Longrightarrow>
     fails_with USER_NOT_FOUND (fst (updateProfile d now userId updates))"
  by (simp add: updateProfile_def fails_with_Inl code_ServiceError)

lemma updatePreferences_no_account:
  "findUserById d userId = None \<Longrightarrow>
     fails_with USER_NOT_FOUND (fst (updatePreferences d now userId updates))"
  by (simp add: updatePreferences_def fails_with_Inl code_ServiceError)

lemma updateProfile_missing:
  assumes fits: "profile_update_fits updates"
    and "findUserById d userId = None \<or> findUserProfile d userId = None \<or>
    findUserPreferences d userId = None"
  shows "fails_with USER_NOT_FOUND (fst (updateProfile d now userId updates))"
proof (cases "findUserById d userId")
  case None
  then show ?thesis
    by (simp add: updateProfile_def fails_with_Inl code_ServiceError)
next
  case user: (Some user)
  show ?thesis
  proof (cases "filter (\<lambda>r. up_user_id r = userId) (user_profiles d)")
    case Nil
    with user show ?thesis
      by (simp add: updateProfile_def updateUserProfile_spec [OF fits] fails_with_Inl
          code_ServiceError)
  next
    case (Cons p rest)
    then have "findUserProfile d userId \<noteq> None"
      by (simp add: findUserProfile_def first_row_Cons)
    with assms(2) user have "findUserPreferences d userId = None"
      by simp
    moreover have "findUserPreferences (d\<lparr>user_profiles := t\<rparr>) userId =
        findUserPreferences d userId" for t
      by (simp add: findUserPreferences_def)
    ultimately show ?thesis
      using user Cons
      by (simp add: updateProfile_def updateUserProfile_spec [OF fits] fails_with_Inl
          code_ServiceError)
  qed
qed

lemma updatePreferences_missing:
  assumes fits: "preferences_update_fits updates"
    and "findUserById d userId = None \<or> findUserProfile d userId = None \<or>
    findUserPreferences d userId = None"
  shows "fails_with USER_NOT_FOUND (fst (updatePreferences d now userId updates))"
proof (cases "findUserById d userId")
  case None
  then show ?thesis
    by (simp add: updatePreferences_def fails_with_Inl code_ServiceError)
next
  case user: (Some user)
  show ?thesis
  proof (cases "filter (\<lambda>r. pr_user_id r = userId) (user_preferences d)")
    case Nil
    with user show ?thesis
      by (simp add: updatePreferences_def updateUserPreferences_spec [OF fits]
          fails_with_Inl code_ServiceError)
  next
    case (Cons p rest)
    then have "findUserPreferences d userId \<noteq> None"
      by (simp add: findUserPreferences_def first_row_Cons)
    with assms(2) user have "findUserProfile d userId = None"
      by simp
    moreover have "findUserProfile (d\<lparr>user_preferences := t\<rparr>) userId =
        findUserProfile d userId" for t
      by (simp add: findUserProfile_def)
    ultimately show ?thesis
      using user Cons
      by (simp add: updatePreferences_def updateUserPreferences_spec [OF fits]
          fails_with_Inl code_ServiceError)
  qed
qed

lemma map_if_unmatched:
  "filter P xs = [] \<Longrightarrow> map (\<lambda>r. if P r then f r else r) xs = xs"
  by (induction xs) (auto split: if_splits)

lemma updateProfile_store:
  assumes fits: "profile_update_fits updates"
  shows "snd (updateProfile d now userId updates) =
     (if findUserById d userId = None then d
      else d\<lparr>user_profiles :=
             map (\<lambda>r. if up_user_id r = userId then spec_profile_update now updates r else r)
               (user_profiles d)\<rparr>)"
proof (cases "findUserById d userId")
  case None
  then show ?thesis
    by (simp add: updateProfile_def)
next
  case (Some user)
  then show ?thesis
    by (cases "filter (\<lambda>r. up_user_id r = userId) (user_profiles d)")
      (simp_all add: updateProfile_def updateUserProfile_spec [OF fits] map_if_unmatched
        split: option.split)
qed

lemma updatePreferences_store:
  assumes fits: "preferences_update_fits updates"
  shows "snd (updatePreferences d now userId updates) =
     (if findUserById d userId = None then d
      else d\<lparr>user_preferences :=
             map (\<lambda>r. if pr_user_id r = userId then spec_preferences_update now updates r else r)
               (user_preferences d)\<rparr>)"
proof (cases "findUserById d userId")
  case None
  then show ?thesis
    by (simp add: updatePreferences_def)
next
  case (Some user)
  then show ?thesis
    by (cases "filter (\<lambda>r. pr_user_id r = userId) (user_preferences d)")
      (simp_all add: updatePreferences_def updateUserPreferences_spec [OF fits] map_if_unmatched
        split: option.split)
qed

text \<open>
  C10. Let the request fit the columns: its texts hold no code unit 0, the avatar has at
  most 500 characters, the language at most 10 and the theme at most 20, and its numbers
  are 32-bit integers. For a user with an account, a profile and preferences,
  \<open>updateProfile\<close> then changes, in the rows of \<open>user_profiles\<close> of that user, the fields
  present in the request and the update timestamp, as \<open>spec_profile_update\<close> says, and
  nothing else in the store; \<open>updatePreferences\<close> does the same on \<open>user_preferences\<close>, as
  \<open>spec_preferences_update\<close> says. Both return the account and the other row as they
  were, with the updated row. When the account, the profile or the preferences of the
  user are missing, each of \<open>getUserWithProfile\<close>, \<open>updateProfile\<close> and
  \<open>updatePreferences\<close> fails with \<open>USER_NOT_FOUND\<close> (the two updates whatever the request
  when it is the account that is missing). Whether the call succeeds or fails, the store
  it leaves differs from the store it met in those rows at most, and not at all when the
  account is missing.
\<close>

theorem partial_updates:
  "(profile_update_fits updates \<and> findUserById d userId = Some user \<and> findUserProfile d userId = Some profile \<and>
    findUserPreferences d userId = Some preferences \<longrightarrow>
      updateProfile d now userId updates =
        (Inr \<lparr>uwp_user = user, uwp_profile = spec_profile_update now updates profile,
              uwp_preferences = preferences\<rparr>,
         d\<lparr>user_profiles :=
             map (\<lambda>r. if up_user_id r = userId then spec_profile_update now updates r else r)
               (user_profiles d)\<rparr>)) \<and>
   (preferences_update_fits updates' \<and> findUserById d userId = Some user \<and> findUserProfile d userId = Some profile \<and>
    findUserPreferences d userId = Some preferences \<longrightarrow>
      updatePreferences d now userId updates' =
        (Inr \<lparr>uwp_user = user, uwp_profile = profile,
              uwp_preferences = spec_preferences_update now updates' preferences\<rparr>,
         d\<lparr>user_preferences :=
             map (\<lambda>r. if pr_user_id r = userId then spec_preferences_update now updates' r else r)
               (user_preferences d)\<rparr>)) \<and>
   ((findUserById d userId = None \<or> findUserProfile d userId = None \<or>
     findUserPreferences d userId = None) \<longrightarrow>
      fails_with USER_NOT_FOUND (getUserWithProfile d userId)) \<and>
   (profile_update_fits updates \<and> (findUserById d userId = None \<or> findUserProfile d userId = None \<or>
     findUserPreferences d userId = None) \<longrightarrow>
      fails_with USER_NOT_FOUND (fst (updateProfile d now userId updates))) \<and>
   (preferences_update_fits updates' \<and> (findUserById d userId = None \<or> findUserProfile d userId = None \<or>
     findUserPreferences d userId = None) \<longrightarrow>
      fails_with USER_NOT_FOUND (fst (updatePreferences d now userId updates'))) \<and>
   (findUserById d userId = None \<longrightarrow>
      fails_with USER_NOT_FOUND (fst (updateProfile d now userId updates)) \<and>
      fails_with USER_NOT_FOUND (fst (updatePreferences d now userId updates'))) \<and>
   (profile_update_fits updates \<longrightarrow>
      snd (updateProfile d now userId updates) =
      (if findUserById d userId = None then d
       else d\<lparr>user_profiles :=
              map (\<lambda>r. if up_user_id r = userId then spec_profile_update now updates r else r)
                (user_profiles d)\<rparr>)) \<and>
   (preferences_update_fits updates' \<longrightarrow>
      snd (updatePreferences d now userId updates') =
      (if findUserById d userId = None then d
       else d\<lparr>user_preferences :=
              map (\<lambda>r. if pr_user_id r = userId then spec_preferences_update now updates' r else r)
                (user_preferences d)\<rparr>))"
proof (intro conjI impI)
  assume "profile_update_fits updates \<and> findUserById d userId = Some user \<and> findUserProfile d userId = Some profile \<and>
    findUserPreferences d userId = Some preferences"
  then show "updateProfile d now userId updates =
        (Inr \<lparr>uwp_user = user, uwp_profile = spec_profile_update now updates profile,
              uwp_preferences = preferences\<rparr>,
         d\<lparr>user_profiles :=
             map (\<lambda>r. if up_user_id r = userId then spec_profile_update now updates r else r)
               (user_profiles d)\<rparr>)"
    using updateProfile_success by blast
next
  assume "preferences_update_fits updates' \<and> findUserById d userId = Some user \<and> findUserProfile d userId = Some profile \<and>
    findUserPreferences d userId = Some preferences"
  then show "updatePreferences d now userId updates' =
        (Inr \<lparr>uwp_user = user, uwp_profile = profile,
              uwp_preferences = spec_preferences_update now updates' preferences\<rparr>,
         d\<lparr>user_preferences :=
             map (\<lambda>r. if pr_user_id r = userId then spec_preferences_update now updates' r else r)
               (user_preferences d)\<rparr>)"
    using updatePreferences_success by blast
next
  assume "(findUserById d userId = None \<or> findUserProfile d userId = None \<or>
     findUserPreferences d userId = None)"
  then show "fails_with USER_NOT_FOUND (getUserWithProfile d userId)"
    by (rule getUserWithProfile_missing)
next
  assume "profile_update_fits updates \<and> (findUserById d userId = None \<or> findUserProfile d userId = None \<or>
     findUserPreferences d userId = None)"
  then show "fails_with USER_NOT_FOUND (fst (updateProfile d now userId updates))"
    using updateProfile_missing by blast
next
  assume "preferences_update_fits updates' \<and> (findUserById d userId = None \<or> findUserProfile d userId = None \<or>
     findUserPreferences d userId = None)"
  then show "fails_with USER_NOT_FOUND (fst (updatePreferences d now userId updates'))"
    using updatePreferences_missing by blast
next
  assume none: "findUserById d userId = None"
  then show "fails_with USER_NOT_FOUND (fst (updateProfile d now userId updates))"
    by (rule updateProfile_no_account)
  from none show "fails_with USER_NOT_FOUND (fst (updatePreferences d now userId updates'))"
    by (rule updatePreferences_no_account)
next
  assume "profile_update_fits updates"
  then show "snd (updateProfile d now userId updates) =
      (if findUserById d userId = None then d
       else d\<lparr>user_profiles :=
              map (\<lambda>r. if up_user_id r = userId then spec_profile_update now updates r else r)
                (user_profiles d)\<rparr>)"
    by (rule updateProfile_store)
next
  assume "preferences_update_fits updates'"
  then show "snd (updatePreferences d now userId updates') =
      (if findUserById d userId = None then d
       else d\<lparr>user_preferences :=
              map (\<lambda>r. if pr_user_id r = userId then spec_preferences_update now updates' r else r)
                (user_preferences d)\<rparr>)"
    by (rule updatePreferences_store)
qed

lemma demo_updates_fit:
  "profile_update_fits demo_profile_update" "preferences_update_fits demo_preferences_update"
  by (simp_all add: profile_update_fits_def preferences_update_fits_def demo_profile_update_def
      demo_preferences_update_def storable_text_def int4_def)

lemma partial_db_finds:
  "findUserById no_profile_db (Uuid 1) = Some (select_user alice)"
  "findUserProfile no_profile_db (Uuid 1) = None"
  "findUserPreferences no_profile_db (Uuid 1) = Some alice_preferences"
  "findUserById no_preferences_db (Uuid 1) = Some (select_user alice)"
  "findUserProfile no_preferences_db (Uuid 1) = Some alice_profile"
  "findUserPreferences no_preferences_db (Uuid 1) = None"
  by (simp_all add: findUserById_def findUserProfile_def findUserPreferences_def
      no_profile_db_def no_preferences_db_def demo_db_def alice_def alice_profile_def
      alice_preferences_def first_row_Nil first_row_Cons)

theorem partial_updates_witness:
  "updateProfile demo_db 9000 (Uuid 1) demo_profile_update =
     (Inr \<lparr>uwp_user = select_user alice,
           uwp_profile =
             \<lparr>up_id = Uuid 2, up_user_id = Uuid 1,
              up_avatar_url = Some ''https://example.com/avatar.jpg'', up_level = 5,
              up_experience = 1000, up_stats_wins = 0, up_stats_losses = 0,
              up_created_at = 1000, up_updated_at = 9000\<rparr>,
           uwp_preferences = alice_preferences\<rparr>,
      demo_db\<lparr>user_profiles :=
        [\<lparr>up_id = Uuid 2, up_user_id = Uuid 1,
          up_avatar_url = Some ''https://example.com/avatar.jpg'', up_level = 5,
          up_experience = 1000, up_stats_wins = 0, up_stats_losses = 0,
          up_created_at = 1000, up_updated_at = 9000\<rparr>]\<rparr>) \<and>
   updatePreferences demo_db 9000 (Uuid 1) demo_preferences_update =
     (Inr \<lparr>uwp_user = select_user alice, uwp_profile = alice_profile,
           uwp_preferences =
             \<lparr>pr_id = Uuid 3, pr_user_id = Uuid 1, pr_notifications_enabled = False,
              pr_language = ''en'', pr_theme = ''dark'', pr_created_at = 1000,
              pr_updated_at = 9000\<rparr>\<rparr>,
      demo_db\<lparr>user_preferences :=
        [\<lparr>pr_id = Uuid 3, pr_user_id = Uuid 1, pr_notifications_enabled = False,
          pr_language = ''en'', pr_theme = ''dark'', pr_created_at = 1000,
          pr_updated_at = 9000\<rparr>]\<rparr>) \<and>
   fails_with USER_NOT_FOUND (getUserWithProfile demo_db (Uuid 9)) \<and>
   fails_with USER_NOT_FOUND (fst (updateProfile demo_db 9000 (Uuid 9) demo_profile_update)) \<and>
   fails_with USER_NOT_FOUND
     (fst (updatePreferences demo_db 9000 (Uuid 9) demo_preferences_update)) \<and>
   snd (updateProfile demo_db 9000 (Uuid 9) demo_profile_update) = demo_db \<and>
   fails_with USER_NOT_FOUND (getUserWithProfile no_profile_db (Uuid 1)) \<and>
   fails_with USER_NOT_FOUND (fst (updateProfile no_profile_db 9000 (Uuid 1) demo_profile_update)) \<and>
   fails_with USER_NOT_FOUND
     (fst (updatePreferences no_profile_db 9000 (Uuid 1) demo_preferences_update)) \<and>
   fails_with USER_NOT_FOUND (getUserWithProfile no_preferences_db (Uuid 1)) \<and>
   fails_with USER_NOT_FOUND
     (fst (updateProfile no_preferences_db 9000 (Uuid 1) demo_profile_update)) \<and>
   fails_with USER_NOT_FOUND
     (fst (updatePreferences no_preferences_db 9000 (Uuid 1) demo_preferences_update))"
proof -
  have ok: "updateProfile demo_db 9000 (Uuid 1) demo_profile_update =
      (Inr \<lparr>uwp_user = select_user alice,
            uwp_profile = spec_profile_update 9000 demo_profile_update alice_profile,
            uwp_preferences = alice_preferences\<rparr>,
       demo_db\<lparr>user_profiles :=
         map (\<lambda>r. if up_user_id r = Uuid 1
                  then spec_profile_update 9000 demo_profile_update r else r)
           (user_profiles demo_db)\<rparr>)"
    "updatePreferences demo_db 9000 (Uuid 1) demo_preferences_update =
      (Inr \<lparr>uwp_user = select_user alice, uwp_profile = alice_profile,
            uwp_preferences =
              spec_preferences_update 9000 demo_preferences_update alice_preferences\<rparr>,
       demo_db\<lparr>user_preferences :=
         map (\<lambda>r. if pr_user_id r = Uuid 1
                  then spec_preferences_update 9000 demo_preferences_update r else r)
           (user_preferences demo_db)\<rparr>)"
    using demo_updates_fit demo_db_finds
      partial_updates [where d = demo_db and userId = "Uuid 1" and user = "select_user alice"
        and profile = alice_profile and preferences = alice_preferences and now = 9000
        and updates = demo_profile_update and updates' = demo_preferences_update]
    by blast+
  have no_account: "fails_with USER_NOT_FOUND (getUserWithProfile demo_db (Uuid 9))"
    "fails_with USER_NOT_FOUND (fst (updateProfile demo_db 9000 (Uuid 9) demo_profile_update))"
    "fails_with USER_NOT_FOUND
       (fst (updatePreferences demo_db 9000 (Uuid 9) demo_preferences_update))"
    "snd (updateProfile demo_db 9000 (Uuid 9) demo_profile_update) = demo_db"
    using demo_updates_fit demo_db_finds(4)
      partial_updates [where d = demo_db and userId = "Uuid 9" and now = 9000
        and updates = demo_profile_update and updates' = demo_preferences_update]
    by simp_all
  have no_profile: "fails_with USER_NOT_FOUND (getUserWithProfile no_profile_db (Uuid 1))"
    "fails_with USER_NOT_FOUND
       (fst (updateProfile no_profile_db 9000 (Uuid 1) demo_profile_update))"
    "fails_with USER_NOT_FOUND
       (fst (updatePreferences no_profile_db 9000 (Uuid 1) demo_preferences_update))"
    using demo_updates_fit partial_db_finds(2)
      partial_updates [where d = no_profile_db and userId = "Uuid 1" and now = 9000
        and updates = demo_profile_update and updates' = demo_preferences_update]
    by simp_all
  have no_preferences:
    "fails_with USER_NOT_FOUND (getUserWithProfile no_preferences_db (Uuid 1))"
    "fails_with USER_NOT_FOUND
       (fst (updateProfile no_preferences_db 9000 (Uuid 1) demo_profile_update))"
    "fails_with USER_NOT_FOUND
       (fst (updatePreferences no_preferences_db 9000 (Uuid 1) demo_preferences_update))"
    using demo_updates_fit partial_db_finds(6)
      partial_updates [where d = no_preferences_db and userId = "Uuid 1" and now = 9000
        and updates = demo_profile_update and updates' = demo_preferences_update]
    by simp_all
  from ok no_account no_profile no_preferences show ?thesis
    by (simp add: spec_profile_update_def spec_preferences_update_def demo_profile_update_def
        demo_preferences_update_def demo_db_def alice_profile_def alice_preferences_def)
qed

text \<open>
  C10, as first stated, is about every request. A level of 2147483648 is outside the
  column \<open>level INTEGER\<close>, and a language of 11 characters does not fit the column
  \<open>language VARCHAR(10)\<close>: for a user with an account, a profile and preferences, the
  UPDATE is rejected, the call fails with \<open>DATABASE_ERROR\<close> and the field present in
  the request is not written.
\<close>

theorem partial_updates_out_of_range:
  "findUserById demo_db (Uuid 1) = Some (select_user alice) \<and>
   findUserProfile demo_db (Uuid 1) = Some alice_profile \<and>
   findUserPreferences demo_db (Uuid 1) = Some alice_preferences \<and>
   updateProfile demo_db 9000 (Uuid 1)
     \<lparr>upq_avatar_url = None, upq_level = Some 2147483648, upq_experience = None,
      upq_stats_wins = None, upq_stats_losses = None\<rparr> =
     (Inl (ServiceError DATABASE_ERROR ''Database operation failed'' 500), demo_db) \<and>
   updatePreferences demo_db 9000 (Uuid 1)
     \<lparr>ufq_notifications_enabled = None, ufq_language = Some ''en-US-posix'', ufq_theme = None\<rparr> =
     (Inl (ServiceError DATABASE_ERROR ''Database operation failed'' 500), demo_db)"
  using demo_db_finds(1,2,3)
  by (simp add: updateProfile_def updateUserProfile_def updatePreferences_def
      updateUserPreferences_def push_field_def update_where_user_id_def eval_expr_def
      param_def varchar_def storable_text_def int4_def query_error_def Let_def)

end
